theory Spec2Isabelle
  imports Complex_Main "HOL-Library.Sublist" "HOL-Library.Log_Nat"
begin

section \<open>Strings of the runtime\<close>

text \<open>
  A JavaScript string is a sequence of UTF-16 code units; a code unit is modelled as an
  integer, and \<open>js\<close> turns an ASCII literal of the source into its code units.
\<close>

type_synonym codeunit = int

type_synonym jstring = "codeunit list"

definition js :: "string \<Rightarrow> jstring" where
  "js s = map of_char s"

text \<open>
  \<^verbatim>\<open>String.prototype.trim\<close> removes white space and line terminators at both ends:
  TAB, LF, VT, FF, CR, SPACE, NO-BREAK SPACE (U+00A0), U+1680, U+2000 to U+200A,
  LINE SEPARATOR (U+2028), PARAGRAPH SEPARATOR (U+2029), U+202F, U+205F, U+3000 and
  the byte order mark (U+FEFF).
\<close>

definition isSpace :: "codeunit \<Rightarrow> bool" where
  "isSpace c =
     (c \<in> {0x09, 0x0A, 0x0B, 0x0C, 0x0D, 0x20, 0xA0, 0x1680, 0x2028, 0x2029, 0x202F,
            0x205F, 0x3000, 0xFEFF}
      \<or> (0x2000 \<le> c \<and> c \<le> 0x200A))"

definition trim :: "jstring \<Rightarrow> jstring" where
  "trim s = rev (dropWhile isSpace (rev (dropWhile isSpace s)))"

text \<open>Decimal rendering of an array index or a count inside a template literal.\<close>

definition digit_char :: "nat \<Rightarrow> codeunit" where
  "digit_char d = int d + 48"

fun show_nat :: "nat \<Rightarrow> jstring" where
  "show_nat n = (if n < 10 then [digit_char n] else show_nat (n div 10) @ [digit_char (n mod 10)])"

declare show_nat.simps [simp del]

section \<open>Domain types (types.ts)\<close>

text \<open>
  A finite JavaScript number is a binary64 value, hence a rational; the validator admits
  only finite numbers. Comparisons are exact. An arithmetic operation returns its exact
  result rounded to binary64: this rounding belongs to the runtime, and the functions that
  compute take it as the parameter \<open>rnd\<close>.
  Arrays are lists, passed by value, except in the store model of the analyzer below.
  A record field is a global constant, so a field name that occurs in several interfaces
  carries a short prefix in all but one of them.
\<close>

datatype PerformanceTrend = Improving | Stable | Declining

datatype RiskLevel = Low | Medium | High

record Grade =
  subject :: jstring
  score :: rat

text \<open>
  The grades field is a type parameter: a list of grades in the value model, an address
  into a store of arrays in the store model.
\<close>

record 'g Student =
  id_s :: jstring
  name :: jstring
  email :: jstring
  grades :: 'g
  participationScore :: rat
  assignmentCompletionRate :: rat
  teacherNotes :: jstring
  performanceTrend :: PerformanceTrend
  lastAssessmentDate :: jstring

record 'g StudentMetrics =
  averageScore :: rat
  highestSubjects :: 'g
  lowestSubjects :: 'g
  m_participationScore :: rat
  m_assignmentCompletionRate :: rat
  needsAttention :: bool

record 'g StudentAnalysis =
  student :: "'g Student"
  metrics :: "'g StudentMetrics"
  a_strengths :: "jstring list"
  a_improvementAreas :: "jstring list"
  riskLevel :: RiskLevel

section \<open>Deterministic analysis engine (analyzer.ts)\<close>

text \<open>
  \<^verbatim>\<open>Math.round(x)\<close> is the integer nearest to x, halves rounded up; it is exact.
\<close>

definition Math_round :: "rat \<Rightarrow> rat" where
  "Math_round x = of_int \<lfloor>x + 1 / 2\<rfloor>"

text \<open>
  \<^verbatim>\<open>scores.reduce((acc, score) => acc + score, 0)\<close> rounds after every addition;
  the division by the length, the product with 100 and the division by 100 round too.
\<close>

definition average :: "(rat \<Rightarrow> rat) \<Rightarrow> rat list \<Rightarrow> rat" where
  "average rnd scores =
     (if length scores = 0 then 0
      else let sum = foldl (\<lambda>acc s. rnd (acc + s)) 0 scores
           in rnd (Math_round (rnd (rnd (sum / of_nat (length scores)) * 100)) / 100))"

text \<open>
  The rounding of binary64, to nearest with ties to even, for results in the finite range:
  \<open>ilog2\<close> is the binary exponent of a positive rational, the significand has 53 bits
  and the least exponent of a unit in the last place is \<open>-1074\<close>. It is the value of
  \<open>rnd\<close> in the sample inputs.
\<close>

definition pow2 :: "int \<Rightarrow> rat" where
  "pow2 e = (if 0 \<le> e then 2 ^ nat e else 1 / 2 ^ nat (- e))"

definition ilog2 :: "rat \<Rightarrow> int" where
  "ilog2 a = (let (p, q) = quotient_of a; d = bitlen p - bitlen q
              in if pow2 d \<le> a then d else d - 1)"

definition roundHalfEven :: "rat \<Rightarrow> int" where
  "roundHalfEven m =
     (let f = \<lfloor>m\<rfloor>; r = m - of_int f
      in if r < 1 / 2 then f else if 1 / 2 < r then f + 1 else if even f then f else f + 1)"

definition roundToDouble :: "rat \<Rightarrow> rat" where
  "roundToDouble x =
     (if x = 0 then 0
      else let a = \<bar>x\<bar>;
               e = max (ilog2 a - 52) (- 1074);
               n = roundHalfEven (a / pow2 e)
           in sgn x * of_int n * pow2 e)"

text \<open>
  \<^verbatim>\<open>[...items].sort((a, b) => score(b) - score(a)).slice(0, n)\<close>: the sort of the
  runtime is stable, so it is the stable insertion sort on the negated key.
\<close>

definition topN :: "'a list \<Rightarrow> nat \<Rightarrow> ('a \<Rightarrow> rat) \<Rightarrow> 'a list" where
  "topN items n sc = take n (sort_key (\<lambda>x. - sc x) items)"

definition bottomN :: "'a list \<Rightarrow> nat \<Rightarrow> ('a \<Rightarrow> rat) \<Rightarrow> 'a list" where
  "bottomN items n sc = take n (sort_key sc items)"

definition determineRisk :: "'g StudentMetrics \<Rightarrow> PerformanceTrend \<Rightarrow> RiskLevel" where
  "determineRisk m trend =
     (if averageScore m < 70 \<or> m_participationScore m \<le> 4
         \<or> m_assignmentCompletionRate m < 70 \<or> trend = Declining then High
      else if averageScore m < 80 \<or> m_participationScore m \<le> 6
         \<or> m_assignmentCompletionRate m < 85 then Medium
      else Low)"

text \<open>\<^verbatim>\<open>parts.join(sep)\<close>\<close>

fun join :: "jstring \<Rightarrow> jstring list \<Rightarrow> jstring" where
  "join sep [] = []"
| "join sep [x] = x"
| "join sep (x # y # ys) = x @ sep @ join sep (y # ys)"

definition analyzeStudent ::
  "(rat \<Rightarrow> rat) \<Rightarrow> Grade list Student \<Rightarrow> Grade list StudentAnalysis" where
  "analyzeStudent rnd st =
     (let averageScore = average rnd (map score (grades st));
          highestSubjects = topN (grades st) 2 score;
          lowestSubjects = bottomN (grades st) 2 score;
          metrics = \<lparr> averageScore = averageScore,
                      highestSubjects = highestSubjects,
                      lowestSubjects = lowestSubjects,
                      m_participationScore = participationScore st,
                      m_assignmentCompletionRate = assignmentCompletionRate st,
                      needsAttention = (averageScore < 75 \<or> assignmentCompletionRate st < 80
                                          \<or> performanceTrend st = Declining) \<rparr>;
          strengths =
            (if averageScore \<ge> 85 then [(js ''Strong overall academic performance'')] else [])
            @ (if participationScore st \<ge> 8 then [(js ''Consistent class participation'')] else [])
            @ (if assignmentCompletionRate st \<ge> 90 then [(js ''High assignment completion rate'')] else [])
            @ (if performanceTrend st = Improving then [(js ''Recent performance trend is improving'')] else []);
          improvementAreas =
            (if averageScore < 75 then [(js ''Overall grade average needs improvement'')] else [])
            @ (if participationScore st \<le> 6 then [(js ''Increase class participation'')] else [])
            @ (if assignmentCompletionRate st < 85 then [(js ''Improve assignment completion rate'')] else [])
            @ (if performanceTrend st = Declining then [(js ''Address recent performance decline'')] else [])
            @ (if length lowestSubjects > 0
               then [(js ''Focus on weaker subjects: '') @ join (js '', '') (map subject lowestSubjects)]
               else []);
          riskLevel = determineRisk metrics (performanceTrend st)
      in \<lparr> student = st, metrics = metrics, a_strengths = strengths,
           a_improvementAreas = improvementAreas, riskLevel = riskLevel \<rparr>)"

section \<open>JSON values of the runtime\<close>

text \<open>
  The value \<^verbatim>\<open>JSON.parse\<close> returns. An object is the association list of its own
  properties. \<^verbatim>\<open>JSON.parse\<close> itself belongs to the runtime: the parsers below take
  it as the parameter \<open>jsonParse\<close>, where \<open>None\<close> stands for the SyntaxError it throws.
\<close>

datatype json =
    JNull
  | JBool bool
  | JNum rat
  | JStr jstring
  | JArr "json list"
  | JObj "(jstring \<times> json) list"

text \<open>
  \<^verbatim>\<open>record.key\<close> on a value that passed \<^verbatim>\<open>typeof v === "object" && v !== null\<close>;
  \<open>None\<close> is \<^verbatim>\<open>undefined\<close>. The keys read by this program are fixed names, none of
  which is an index or \<^verbatim>\<open>length\<close>, so an array has none of them.
\<close>

fun getProp :: "json \<Rightarrow> jstring \<Rightarrow> json option" where
  "getProp (JObj kvs) k = map_of kvs k"
| "getProp _ k = None"

fun isObject :: "json \<Rightarrow> bool" where
  "isObject (JObj kvs) = True"
| "isObject (JArr xs) = True"
| "isObject _ = False"

section \<open>Output contract: parsing and validation (insights.ts)\<close>

datatype 'a ValidationResult = Ok 'a | Fail "jstring list"

record StudentInsights =
  positiveObservation :: jstring
  strengths :: "jstring list"
  improvementAreas :: "jstring list"
  strategies :: "jstring list"
  nextStepGoal :: jstring
  encouragement :: jstring

record Attention =
  at_name :: jstring
  at_reason :: jstring

record TeacherInsights =
  classOverview :: jstring
  t_strengths :: "jstring list"
  attentionNeeded :: "Attention list"
  nextSteps :: "jstring list"

fun safeString :: "json option \<Rightarrow> nat \<Rightarrow> jstring option" where
  "safeString (Some (JStr v)) maxLen =
     (let trimmed = trim v
      in if trimmed = [] then None
         else Some (if length trimmed > maxLen then take maxLen trimmed else trimmed))"
| "safeString _ maxLen = None"

fun normalizeStringArray :: "json option \<Rightarrow> nat \<Rightarrow> nat \<Rightarrow> jstring \<Rightarrow> jstring list ValidationResult" where
  "normalizeStringArray (Some (JArr v)) mn mx label =
     (let cleaned = List.map_filter (\<lambda>item. safeString (Some item) 180) v
      in if length cleaned < mn
         then Fail [label @ (js '' must include at least '') @ show_nat mn @ (js '' item(s)'')]
         else Ok (take mx cleaned))"
| "normalizeStringArray _ mn mx label = Fail [label @ (js '' must be an array'')]"

text \<open>\<^verbatim>\<open>indexOf\<close> and \<^verbatim>\<open>lastIndexOf\<close> of a one-character pattern; \<open>-1\<close> when absent.\<close>

fun indexOf :: "jstring \<Rightarrow> codeunit \<Rightarrow> int" where
  "indexOf [] c = -1"
| "indexOf (x # xs) c =
     (if x = c then 0 else (let r = indexOf xs c in if r = -1 then -1 else r + 1))"

fun lastIndexOf :: "jstring \<Rightarrow> codeunit \<Rightarrow> int" where
  "lastIndexOf [] c = -1"
| "lastIndexOf (x # xs) c =
     (let r = lastIndexOf xs c in if r \<noteq> -1 then r + 1 else if x = c then 0 else -1)"

text \<open>\<^verbatim>\<open>text.slice(a, b)\<close> for \<open>0 \<le> a\<close> and \<open>0 \<le> b\<close>.\<close>

definition slice :: "'a list \<Rightarrow> int \<Rightarrow> int \<Rightarrow> 'a list" where
  "slice xs a b = take (nat b - nat a) (drop (nat a) xs)"

definition extractJsonObject :: "jstring \<Rightarrow> jstring option" where
  "extractJsonObject text =
     (let start = indexOf text (of_char (CHR ''{''));
          end = lastIndexOf text (of_char (CHR ''}''))
      in if start = -1 \<or> end = -1 \<or> end \<le> start then None
         else Some (slice text start (end + 1)))"

fun errorsOf :: "'a ValidationResult \<Rightarrow> jstring list" where
  "errorsOf (Ok v) = []"
| "errorsOf (Fail es) = es"

definition parseStudentInsights :: "(jstring \<Rightarrow> json option) \<Rightarrow> jstring \<Rightarrow> StudentInsights ValidationResult" where
  "parseStudentInsights jsonParse raw =
     (case extractJsonObject raw of
        None \<Rightarrow> Fail [(js ''No JSON object found in response'')]
      | Some jsonCandidate \<Rightarrow>
          if jsonCandidate = [] then Fail [(js ''No JSON object found in response'')]
          else
          (case jsonParse jsonCandidate of
             None \<Rightarrow> Fail [(js ''Invalid JSON in response'')]
           | Some parsed \<Rightarrow>
               if \<not> isObject parsed then Fail [(js ''Response JSON must be an object'')]
               else
                 let positiveObservation = safeString (getProp parsed (js ''positiveObservation'')) 220;
                     nextStepGoal = safeString (getProp parsed (js ''nextStepGoal'')) 200;
                     encouragement = safeString (getProp parsed (js ''encouragement'')) 200;
                     strengthsResult = normalizeStringArray (getProp parsed (js ''strengths'')) 1 3 (js ''strengths'');
                     improvementResult = normalizeStringArray (getProp parsed (js ''improvementAreas'')) 1 2 (js ''improvementAreas'');
                     strategiesResult = normalizeStringArray (getProp parsed (js ''strategies'')) 2 3 (js ''strategies'');
                     errors =
                       (if positiveObservation = None then [(js ''positiveObservation must be a non-empty string'')] else [])
                       @ (if nextStepGoal = None then [(js ''nextStepGoal must be a non-empty string'')] else [])
                       @ (if encouragement = None then [(js ''encouragement must be a non-empty string'')] else [])
                       @ errorsOf strengthsResult
                       @ errorsOf improvementResult
                       @ errorsOf strategiesResult
                 in if length errors > 0 then Fail errors
                    else
                      (case (positiveObservation, nextStepGoal, encouragement,
                             strengthsResult, improvementResult, strategiesResult) of
                         (Some po, Some g, Some e, Ok ss, Ok im, Ok st) \<Rightarrow>
                           Ok \<lparr> positiveObservation = po, strengths = ss, improvementAreas = im,
                                strategies = st, nextStepGoal = g, encouragement = e \<rparr>
                       | _ \<Rightarrow> Fail [(js ''Invalid student insights payload'')])))"

text \<open>
  The \<^verbatim>\<open>forEach\<close> over \<^verbatim>\<open>attentionNeeded\<close>: the accepted entries and the indexed
  errors, both in the order of the array.
\<close>

fun attentionLoop :: "json list \<Rightarrow> nat \<Rightarrow> Attention list \<Rightarrow> jstring list \<Rightarrow> Attention list \<times> jstring list" where
  "attentionLoop [] index acc errs = (acc, errs)"
| "attentionLoop (item # items) index acc errs =
     (if \<not> isObject item
      then attentionLoop items (index + 1) acc
             (errs @ [(js ''attentionNeeded['') @ show_nat index @ (js ''] must be an object'')])
      else
        (case (safeString (getProp item (js ''name'')) 80, safeString (getProp item (js ''reason'')) 160) of
           (Some n, Some r) \<Rightarrow>
             attentionLoop items (index + 1) (acc @ [\<lparr> at_name = n, at_reason = r \<rparr>]) errs
         | _ \<Rightarrow>
             attentionLoop items (index + 1) acc
               (errs @ [(js ''attentionNeeded['') @ show_nat index @ (js ''] must include name and reason'')])))"

definition parseTeacherInsights :: "(jstring \<Rightarrow> json option) \<Rightarrow> jstring \<Rightarrow> TeacherInsights ValidationResult" where
  "parseTeacherInsights jsonParse raw =
     (case extractJsonObject raw of
        None \<Rightarrow> Fail [(js ''No JSON object found in response'')]
      | Some jsonCandidate \<Rightarrow>
          if jsonCandidate = [] then Fail [(js ''No JSON object found in response'')]
          else
          (case jsonParse jsonCandidate of
             None \<Rightarrow> Fail [(js ''Invalid JSON in response'')]
           | Some parsed \<Rightarrow>
               if \<not> isObject parsed then Fail [(js ''Response JSON must be an object'')]
               else
                 let classOverview = safeString (getProp parsed (js ''classOverview'')) 240;
                     strengthsResult = normalizeStringArray (getProp parsed (js ''strengths'')) 1 4 (js ''strengths'');
                     nextStepsResult = normalizeStringArray (getProp parsed (js ''nextSteps'')) 2 4 (js ''nextSteps'');
                     (attention, attentionErrors) =
                       (case getProp parsed (js ''attentionNeeded'') of
                          Some (JArr attentionRaw) \<Rightarrow> attentionLoop attentionRaw 0 [] []
                        | _ \<Rightarrow> ([], [(js ''attentionNeeded must be an array'')]));
                     errors =
                       (if classOverview = None then [(js ''classOverview must be a non-empty string'')] else [])
                       @ errorsOf strengthsResult
                       @ errorsOf nextStepsResult
                       @ (if length attentionErrors > 0 then attentionErrors else [])
                 in if length errors > 0 then Fail errors
                    else
                      (case (classOverview, strengthsResult, nextStepsResult) of
                         (Some ov, Ok ss, Ok ns) \<Rightarrow>
                           Ok \<lparr> classOverview = ov, t_strengths = ss,
                                attentionNeeded = attention, nextSteps = ns \<rparr>
                       | _ \<Rightarrow> Fail [(js ''Invalid teacher insights payload'')])))"

section \<open>Deterministic fallback (insights.ts)\<close>

text \<open>Optional fields of \<^verbatim>\<open>TeacherPreferences\<close> are options; \<open>None\<close> is an absent field.\<close>

datatype Tone = Warm | Neutral | Direct

record TeacherPreferences =
  classGoals :: "jstring list option"
  focusAreas :: "jstring list option"
  preferredStrategies :: "jstring list option"
  tone :: "Tone option"
  p_teacherNotes :: "jstring option"

text \<open>
  \<^verbatim>\<open>preferred.forEach((item) => { if (strategies.length < 3) strategies.push(item); })\<close>
\<close>

fun pushPreferred :: "jstring list \<Rightarrow> jstring list \<Rightarrow> jstring list" where
  "pushPreferred [] strats = strats"
| "pushPreferred (item # items) strats =
     pushPreferred items (if length strats < 3 then strats @ [item] else strats)"

text \<open>\<^verbatim>\<open>while (strategies.length < 2) strategies.push(...)\<close>\<close>

function fillStrategies :: "jstring list \<Rightarrow> jstring list" where
  "fillStrategies strats =
     (if length strats < 2
      then fillStrategies
             (strats @ [(js ''Ask for quick feedback from your teacher on one recent assignment.'')])
      else strats)"
  by pat_completeness auto
termination
  by (relation "measure (\<lambda>strats. 2 - length strats)") auto

declare fillStrategies.simps [simp del]

text \<open>The dash of the closing line, U+2014.\<close>

definition emdash :: jstring where
  "emdash = [0x2014]"

text \<open>
  \<open>strengths0\<close> below is never empty, so \<^verbatim>\<open>strengths[0]\<close> is its head.
\<close>

definition buildFallbackStudentInsights ::
  "Grade list StudentAnalysis \<Rightarrow> TeacherPreferences option \<Rightarrow> StudentInsights" where
  "buildFallbackStudentInsights analysis preferences =
     (let strengths0 =
            (if length (a_strengths analysis) > 0 then a_strengths analysis
             else [(js ''You're making steady progress across your classes.'')]);
          improvementAreas0 =
            (if length (a_improvementAreas analysis) > 0 then take 2 (a_improvementAreas analysis)
             else [(js ''Keep building consistency with assignments and review routines.'')]);
          m = metrics analysis;
          s1 = (if m_assignmentCompletionRate m < 85
                then [(js ''Use a checklist and finish assignments 24 hours before the deadline.'')]
                else []);
          s2 = s1 @ (if m_participationScore m \<le> 6
                then [(js ''Prepare one question or comment before class and share it.'')]
                else []);
          s3 = s2 @ (if averageScore m < 75
                then [(js ''Set a 20-minute daily review block and summarize notes in your own words.'')]
                else []);
          s4 = s3 @ (if length (lowestSubjects m) > 0
                then [(js ''Spend extra practice time on '') @ join (js '', '') (map subject (lowestSubjects m))
                        @ (js '' with short, focused sessions.'')]
                else []);
          preferred =
            (case preferences of
               None \<Rightarrow> []
             | Some p \<Rightarrow>
                 (case preferredStrategies p of
                    None \<Rightarrow> []
                  | Some ps \<Rightarrow> filter (\<lambda>item. trim item \<noteq> []) ps));
          s5 = pushPreferred preferred s4;
          s6 = fillStrategies s5;
          goal0 =
            (case preferences of
               None \<Rightarrow> None
             | Some p \<Rightarrow>
                 (case classGoals p of
                    None \<Rightarrow> None
                  | Some [] \<Rightarrow> None
                  | Some (g # gs) \<Rightarrow> Some (trim g)));
          goal =
            (case goal0 of
               None \<Rightarrow> (js ''Choose one focus area and practice it three times this week.'')
             | Some g \<Rightarrow>
                 if g = [] then (js ''Choose one focus area and practice it three times this week.'')
                 else g)
      in \<lparr> positiveObservation = hd strengths0,
           strengths = take 3 strengths0,
           improvementAreas = improvementAreas0,
           strategies = take 3 s6,
           nextStepGoal = goal,
           encouragement = (js ''Small steps add up'') @ emdash
              @ (js ''keep going, and reach out if you need support.'') \<rparr>)"

section \<open>Memory store (memory store module)\<close>

record MemoryEntry =
  e_date :: jstring
  e_note :: jstring

record StudentMemory =
  studentId :: jstring
  summary :: jstring
  m_strengths :: "jstring list"
  m_improvementAreas :: "jstring list"
  goals :: "jstring list"
  lastUpdated :: jstring
  history :: "MemoryEntry list"

text \<open>
  The loop of \<^verbatim>\<open>uniqueList\<close>: \<open>seen\<close> is the \<^verbatim>\<open>Set\<close>, \<open>result\<close> the array being
  built; the \<^verbatim>\<open>break\<close> returns as soon as \<open>result\<close> has \<open>max\<close> elements.
\<close>

fun uniqueLoop :: "jstring list \<Rightarrow> nat \<Rightarrow> jstring set \<Rightarrow> jstring list \<Rightarrow> jstring list" where
  "uniqueLoop [] mx seen result = result"
| "uniqueLoop (item # cleaned) mx seen result =
     (if item \<in> seen then uniqueLoop cleaned mx seen result
      else let result' = result @ [item]
           in if length result' \<ge> mx then result'
              else uniqueLoop cleaned mx (insert item seen) result')"

definition uniqueList :: "jstring list \<Rightarrow> nat \<Rightarrow> jstring list" where
  "uniqueList items mx =
     (let cleaned = filter (\<lambda>item. item \<noteq> []) (map trim items)
      in uniqueLoop cleaned mx {} [])"

text \<open>
  \<^verbatim>\<open>entries.slice(0, limit)\<close> truncates a positive fractional limit towards zero.
\<close>

definition trimHistory :: "MemoryEntry list \<Rightarrow> rat \<Rightarrow> MemoryEntry list" where
  "trimHistory entries limit =
     (if limit \<le> 0 then [] else take (nat \<lfloor>limit\<rfloor>) entries)"

text \<open>
  \<open>now\<close> is the value of \<^verbatim>\<open>new Date().toISOString()\<close> at the call.
\<close>

definition historyEntryOf :: "jstring \<Rightarrow> StudentInsights \<Rightarrow> MemoryEntry" where
  "historyEntryOf now insights =
     \<lparr> e_date = now,
       e_note = (js ''Focus: '') @ join (js ''; '') (improvementAreas insights)
              @ (js '' | Goal: '') @ nextStepGoal insights \<rparr>"

definition updateStudentMemory ::
  "jstring \<Rightarrow> StudentMemory \<Rightarrow> 'g Student \<Rightarrow> StudentInsights \<Rightarrow> rat \<Rightarrow> StudentMemory" where
  "updateStudentMemory now previous st insights historyLimit =
     (let summary = join (js '' '') [positiveObservation insights, (js ''Goal: '') @ nextStepGoal insights];
          historyEntry = historyEntryOf now insights
      in \<lparr> studentId = id_s st,
           summary = summary,
           m_strengths = uniqueList (positiveObservation insights # strengths insights) 3,
           m_improvementAreas = uniqueList (improvementAreas insights) 3,
           goals = uniqueList (nextStepGoal insights # goals previous) 3,
           lastUpdated = now,
           history = trimHistory (historyEntry # history previous) historyLimit \<rparr>)"

text \<open>
  A sequence of runs for one student: each update takes the snapshot the previous one
  returned. An element of the list is the clock value, the student and the insights of
  one run.
\<close>

fun updateMany ::
  "StudentMemory \<Rightarrow> (jstring \<times> 'g Student \<times> StudentInsights) list \<Rightarrow> rat \<Rightarrow> StudentMemory" where
  "updateMany previous [] historyLimit = previous"
| "updateMany previous ((now, st, insights) # runs) historyLimit =
     updateMany (updateStudentMemory now previous st insights historyLimit) runs historyLimit"

subsection \<open>Loading a snapshot\<close>






section \<open>The analyzer over a store of arrays\<close>

text \<open>
  \<^verbatim>\<open>Array.prototype.sort\<close> sorts in place, so whether \<^verbatim>\<open>analyzeStudent\<close> changes its
  argument depends on which array is sorted. Here the \<^verbatim>\<open>Grade[]\<close> arrays live in a
  store, an address is an index into it, and a \<^verbatim>\<open>Student\<close> holds the address of its
  grades. The arrays of numbers and of strings that \<^verbatim>\<open>map\<close> builds are fresh and never
  shared, so they stay values.
\<close>

type_synonym addr = nat

type_synonym store = "Grade list list"

text \<open>\<^verbatim>\<open>[...items]\<close> and \<^verbatim>\<open>slice\<close> create a new array at a fresh address.\<close>

definition alloc :: "store \<Rightarrow> Grade list \<Rightarrow> store \<times> addr" where
  "alloc h xs = (h @ [xs], length h)"

text \<open>\<^verbatim>\<open>arr.sort(cmp)\<close> overwrites the array at its address.\<close>

definition sortInPlace :: "store \<Rightarrow> addr \<Rightarrow> (Grade \<Rightarrow> rat) \<Rightarrow> store" where
  "sortInPlace h a key = h[a := sort_key key (h ! a)]"

definition topN_st :: "store \<Rightarrow> addr \<Rightarrow> nat \<Rightarrow> (Grade \<Rightarrow> rat) \<Rightarrow> store \<times> addr" where
  "topN_st h items n sc =
     (let (h1, copy) = alloc h (h ! items);
          h2 = sortInPlace h1 copy (\<lambda>x. - sc x)
      in alloc h2 (take n (h2 ! copy)))"

definition bottomN_st :: "store \<Rightarrow> addr \<Rightarrow> nat \<Rightarrow> (Grade \<Rightarrow> rat) \<Rightarrow> store \<times> addr" where
  "bottomN_st h items n sc =
     (let (h1, copy) = alloc h (h ! items);
          h2 = sortInPlace h1 copy sc
      in alloc h2 (take n (h2 ! copy)))"

definition analyzeStudent_st ::
  "(rat \<Rightarrow> rat) \<Rightarrow> store \<Rightarrow> addr Student \<Rightarrow> store \<times> addr StudentAnalysis" where
  "analyzeStudent_st rnd h st =
     (let averageScore = average rnd (map score (h ! grades st));
          (h1, highestSubjects) = topN_st h (grades st) 2 score;
          (h2, lowestSubjects) = bottomN_st h1 (grades st) 2 score;
          metrics = \<lparr> averageScore = averageScore,
                      highestSubjects = highestSubjects,
                      lowestSubjects = lowestSubjects,
                      m_participationScore = participationScore st,
                      m_assignmentCompletionRate = assignmentCompletionRate st,
                      needsAttention = (averageScore < 75 \<or> assignmentCompletionRate st < 80
                                          \<or> performanceTrend st = Declining) \<rparr>;
          strengths =
            (if averageScore \<ge> 85 then [(js ''Strong overall academic performance'')] else [])
            @ (if participationScore st \<ge> 8 then [(js ''Consistent class participation'')] else [])
            @ (if assignmentCompletionRate st \<ge> 90 then [(js ''High assignment completion rate'')] else [])
            @ (if performanceTrend st = Improving then [(js ''Recent performance trend is improving'')] else []);
          improvementAreas =
            (if averageScore < 75 then [(js ''Overall grade average needs improvement'')] else [])
            @ (if participationScore st \<le> 6 then [(js ''Increase class participation'')] else [])
            @ (if assignmentCompletionRate st < 85 then [(js ''Improve assignment completion rate'')] else [])
            @ (if performanceTrend st = Declining then [(js ''Address recent performance decline'')] else [])
            @ (if length (h2 ! lowestSubjects) > 0
               then [(js ''Focus on weaker subjects: '') @ join (js '', '') (map subject (h2 ! lowestSubjects))]
               else []);
          riskLevel = determineRisk metrics (performanceTrend st)
      in (h2, \<lparr> student = st, metrics = metrics, a_strengths = strengths,
                a_improvementAreas = improvementAreas, riskLevel = riskLevel \<rparr>))"

text \<open>Reading a student and an analysis out of the store, array by array.\<close>

definition readStudent :: "store \<Rightarrow> addr Student \<Rightarrow> Grade list Student" where
  "readStudent h st =
     \<lparr> id_s = id_s st, name = name st, email = email st, grades = h ! grades st,
       participationScore = participationScore st,
       assignmentCompletionRate = assignmentCompletionRate st,
       teacherNotes = teacherNotes st, performanceTrend = performanceTrend st,
       lastAssessmentDate = lastAssessmentDate st \<rparr>"

definition readAnalysis :: "store \<Rightarrow> addr StudentAnalysis \<Rightarrow> Grade list StudentAnalysis" where
  "readAnalysis h a =
     \<lparr> student = readStudent h (student a),
       metrics = \<lparr> averageScore = averageScore (metrics a),
                   highestSubjects = h ! highestSubjects (metrics a),
                   lowestSubjects = h ! lowestSubjects (metrics a),
                   m_participationScore = m_participationScore (metrics a),
                   m_assignmentCompletionRate = m_assignmentCompletionRate (metrics a),
                   needsAttention = needsAttention (metrics a) \<rparr>,
       a_strengths = a_strengths a,
       a_improvementAreas = a_improvementAreas a,
       riskLevel = riskLevel a \<rparr>"

section \<open>Run orchestrator (run\_with\_tool.ts)\<close>

text \<open>
  The run is modelled by the calls it makes on its collaborators, in order: an effect is a
  call that has returned. The same function in main\_with\_memory.ts makes the same calls
  and returns nothing.
\<close>

datatype effect =
    StartRun jstring jstring nat nat
  | FinishRun jstring jstring
  | RecordStudentMessage jstring jstring jstring bool
  | RecordTeacherMessage jstring jstring bool
  | CreateAgent
  | AnalyzeStudent jstring
  | LoadStudentMemory jstring
  | GenerateStudentInsights jstring
  | SendEmail jstring
  | SaveStudentMemory jstring
  | SaveStudentMemoryArchive jstring jstring
  | LoadTeacherMemory
  | GenerateTeacherSummary
  | SaveTeacherMemory
  | SaveTeacherMemoryArchive jstring

text \<open>
  What the collaborators do during one run. \<open>loadError\<close> is the exception of
  \<^verbatim>\<open>loadStudentsRaw\<close>, if any; \<open>students\<close> is \<^verbatim>\<open>validation.valid\<close> and \<open>totalCount\<close>
  the length of the raw array. \<open>roundDouble\<close> is the rounding of the arithmetic of the
  runtime. \<open>analyzeThrows\<close> gives the exception of \<^verbatim>\<open>analyzeStudent\<close>
  for a student id (there is none on a validated record; the branch is kept as the source
  has it). \<open>studentInsightsRaw\<close> and \<open>teacherSummaryRaw\<close> are the texts the agent returns.
  \<open>studentThrowsAt\<close> and \<open>teacherThrowsAt\<close> say where a \<^verbatim>\<open>try\<close> block is left by an
  exception, if it is: after that many of its calls have returned.
\<close>

record run_env =
  runId :: jstring
  startedAt :: jstring
  loadError :: "jstring option"
  totalCount :: nat
  students :: "Grade list Student list"
  jsonParse :: "jstring \<Rightarrow> json option"
  teacherRules :: "TeacherPreferences option"
  teacherEmail :: jstring
  roundDouble :: "rat \<Rightarrow> rat"
  analyzeThrows :: "jstring \<Rightarrow> jstring option"
  studentInsightsRaw :: "jstring \<Rightarrow> jstring"
  studentThrowsAt :: "jstring \<Rightarrow> nat option"
  teacherSummaryRaw :: jstring
  teacherThrowsAt :: "nat option"

fun isOk :: "'a ValidationResult \<Rightarrow> bool" where
  "isOk (Ok v) = True"
| "isOk (Fail es) = False"

text \<open>
  A \<^verbatim>\<open>try\<close> block that makes \<open>calls\<close> in order, with its \<^verbatim>\<open>catch\<close> clause, which makes
  the call \<open>handler\<close>. An exception raised once \<open>k\<close> calls have returned, in the next call
  or in the code before it, skips the remaining calls. A block all of whose calls have
  returned has ended, so only \<open>k\<close> below the number of calls is an exception.
\<close>

definition tryCatch :: "effect list \<Rightarrow> nat option \<Rightarrow> effect \<Rightarrow> effect list" where
  "tryCatch calls throwsAt handler =
     (case throwsAt of
        None \<Rightarrow> calls
      | Some k \<Rightarrow> if k < length calls then take k calls @ [handler] else calls)"

text \<open>The calls of the second \<^verbatim>\<open>try\<close> block of the loop body when nothing is raised.\<close>

definition studentCalls :: "run_env \<Rightarrow> Grade list StudentAnalysis \<Rightarrow> effect list" where
  "studentCalls env analysis =
     (let sid = id_s (student analysis);
          parsed = parseStudentInsights (jsonParse env) (studentInsightsRaw env sid);
          usedFallback = (\<not> isOk parsed)
      in [LoadStudentMemory sid,
          GenerateStudentInsights sid,
          SendEmail (email (student analysis)),
          RecordStudentMessage (runId env) sid (js ''sent'') usedFallback,
          SaveStudentMemory sid,
          SaveStudentMemoryArchive (runId env) sid])"

definition insightsStage :: "run_env \<Rightarrow> Grade list StudentAnalysis \<Rightarrow> effect list" where
  "insightsStage env analysis =
     (let sid = id_s (student analysis)
      in tryCatch (studentCalls env analysis) (studentThrowsAt env sid)
           (RecordStudentMessage (runId env) sid (js ''insights_failed'') False))"

text \<open>One iteration of the loop: the effects, and the analysis if it was pushed.\<close>

definition processStudent ::
  "run_env \<Rightarrow> Grade list Student \<Rightarrow> effect list \<times> Grade list StudentAnalysis option" where
  "processStudent env st =
     (case analyzeThrows env (id_s st) of
        Some err \<Rightarrow>
          ([RecordStudentMessage (runId env) (id_s st) (js ''analysis_failed'') False], None)
      | None \<Rightarrow>
          (let analysis = analyzeStudent (roundDouble env) st
           in (AnalyzeStudent (id_s st) # insightsStage env analysis, Some analysis)))"

fun runStudents ::
  "run_env \<Rightarrow> Grade list Student list \<Rightarrow> effect list \<times> Grade list StudentAnalysis list" where
  "runStudents env [] = ([], [])"
| "runStudents env (st # sts) =
     (let (t, a) = processStudent env st;
          (ts, analyses) = runStudents env sts
      in (t @ ts, (case a of None \<Rightarrow> analyses | Some x \<Rightarrow> x # analyses)))"

text \<open>The calls of the last \<^verbatim>\<open>try\<close> block, the teacher summary, when nothing is raised.\<close>

definition teacherCalls :: "run_env \<Rightarrow> effect list" where
  "teacherCalls env =
     (let parsed = parseTeacherInsights (jsonParse env) (teacherSummaryRaw env);
          usedFallback = (\<not> isOk parsed)
      in [LoadTeacherMemory,
          GenerateTeacherSummary,
          SendEmail (teacherEmail env),
          RecordTeacherMessage (runId env) (js ''sent'') usedFallback,
          SaveTeacherMemory,
          SaveTeacherMemoryArchive (runId env)])"

definition teacherStage :: "run_env \<Rightarrow> effect list" where
  "teacherStage env =
     tryCatch (teacherCalls env) (teacherThrowsAt env)
       (RecordTeacherMessage (runId env) (js ''summary_failed'') False)"

text \<open>
  \<^verbatim>\<open>runOnce\<close>: the effects and the outcome, \<open>Inr\<close> the run id it returns, \<open>Inl\<close> the
  exception that escapes it.
\<close>

definition runOnce :: "run_env \<Rightarrow> effect list \<times> (jstring + jstring)" where
  "runOnce env =
     (case loadError env of
        Some err \<Rightarrow> ([], Inl err)
      | None \<Rightarrow>
          (let start = [StartRun (runId env) (startedAt env) (totalCount env) (length (students env))]
           in if length (students env) = 0
              then (start @ [FinishRun (runId env) (js ''no_valid_students'')], Inr (runId env))
              else
                (let (t, analyses) = runStudents env (students env)
                 in if length analyses = 0
                    then (start @ [CreateAgent] @ t
                            @ [FinishRun (runId env) (js ''no_successful_analyses'')], Inr (runId env))
                    else (start @ [CreateAgent] @ t @ teacherStage env
                            @ [FinishRun (runId env) (js ''completed'')], Inr (runId env)))))"

text \<open>The status of the last \<^verbatim>\<open>finishRun\<close> of a trace.\<close>

fun finishStatus :: "effect list \<Rightarrow> jstring option" where
  "finishStatus [] = None"
| "finishStatus (FinishRun rid status # es) =
     (case finishStatus es of None \<Rightarrow> Some status | Some s \<Rightarrow> Some s)"
| "finishStatus (e # es) = finishStatus es"

text \<open>Every call other than the two that open and close the run record.\<close>

fun isItemWork :: "effect \<Rightarrow> bool" where
  "isItemWork (StartRun rid t n m) = False"
| "isItemWork (FinishRun rid s) = False"
| "isItemWork e = True"

section \<open>The analyze endpoint (http\_server.ts)\<close>

record ServerState =
  running :: bool
  lastRunId :: "jstring option"

datatype AnalyzeStatus = Queued | Running | Completed | Failed

datatype Response =
    ApiError jstring nat
  | AnalyzeResponse jstring AnalyzeStatus nat

text \<open>Truthiness of a JSON value, for \<^verbatim>\<open>record.scope && ...\<close>; \<open>None\<close> is \<^verbatim>\<open>undefined\<close>.\<close>

fun truthy :: "json option \<Rightarrow> bool" where
  "truthy None = False"
| "truthy (Some JNull) = False"
| "truthy (Some (JBool b)) = b"
| "truthy (Some (JNum n)) = (n \<noteq> 0)"
| "truthy (Some (JStr s)) = (s \<noteq> [])"
| "truthy (Some (JArr xs)) = True"
| "truthy (Some (JObj kvs)) = True"

fun isString :: "json option \<Rightarrow> bool" where
  "isString (Some (JStr s)) = True"
| "isString _ = False"

fun isBoolean :: "json option \<Rightarrow> bool" where
  "isBoolean (Some (JBool b)) = True"
| "isBoolean _ = False"

definition isAnalyzeRequest :: "json \<Rightarrow> bool" where
  "isAnalyzeRequest v =
     (if \<not> truthy (Some v) \<or> \<not> isObject v then False
      else if truthy (getProp v (js ''scope'')) \<and> getProp v (js ''scope'') \<noteq> Some (JStr (js ''all''))
              \<and> getProp v (js ''scope'') \<noteq> Some (JStr (js ''student'')) then False
      else if truthy (getProp v (js ''studentId'')) \<and> \<not> isString (getProp v (js ''studentId'')) then False
      else if truthy (getProp v (js ''dryRun'')) \<and> \<not> isBoolean (getProp v (js ''dryRun'')) then False
      else True)"

definition lastRunIdOrUnknown :: "ServerState \<Rightarrow> jstring" where
  "lastRunIdOrUnknown s = (case lastRunId s of None \<Rightarrow> (js ''unknown'') | Some r \<Rightarrow> r)"

text \<open>
  \<^verbatim>\<open>handleAnalyze\<close> up to \<^verbatim>\<open>await runOnce(config, store)\<close>. The body is \<open>None\<close> when the
  request does not hold JSON. \<open>Inl\<close> is the response of an early return, \<open>Inr\<close> says that
  \<^verbatim>\<open>runOnce\<close> has been called. The test of the flag and its assignment are not separated
  by an \<^verbatim>\<open>await\<close>, so no other request runs between them.
\<close>

definition handleAnalyze_enter :: "json option \<Rightarrow> ServerState \<Rightarrow> (Response + unit) \<times> ServerState" where
  "handleAnalyze_enter body s =
     (case body of
        None \<Rightarrow> (Inl (ApiError (js ''Invalid JSON payload'') 400), s)
      | Some payload \<Rightarrow>
          if \<not> isAnalyzeRequest payload then (Inl (ApiError (js ''Invalid analysis request'') 400), s)
          else if truthy (getProp payload (js ''scope'')) \<and> getProp payload (js ''scope'') \<noteq> Some (JStr (js ''all''))
          then (Inl (ApiError (js ''Student-level analysis is not supported yet'') 400), s)
          else if running s then (Inl (AnalyzeResponse (lastRunIdOrUnknown s) Running 409), s)
          else (Inr (), s\<lparr>running := True\<rparr>))"

text \<open>
  \<^verbatim>\<open>handleAnalyze\<close> from the moment \<^verbatim>\<open>runOnce\<close> settles, with the \<^verbatim>\<open>catch\<close> and the
  \<^verbatim>\<open>finally\<close>.
\<close>

definition handleAnalyze_resume :: "jstring + jstring \<Rightarrow> ServerState \<Rightarrow> Response \<times> ServerState" where
  "handleAnalyze_resume outcome s =
     (case outcome of
        Inr rid \<Rightarrow>
          (AnalyzeResponse rid Completed 200, s\<lparr>lastRunId := Some rid, running := False\<rparr>)
      | Inl err \<Rightarrow>
          (AnalyzeResponse (lastRunIdOrUnknown s) Failed 500, s\<lparr>running := False\<rparr>))"

text \<open>
  The server between events. \<open>inflight\<close> holds the runs whose \<^verbatim>\<open>runOnce\<close> has been
  called and has not settled yet, \<open>responses\<close> what the server has answered so far. A
  request arrives with its body and with the behaviour the collaborators would show if it
  started a run; the oldest run in flight settles.
\<close>

record Server =
  srv :: ServerState
  inflight :: "run_env list"
  responses :: "Response list"

datatype event = Arrive "json option" run_env | Settle


fun step :: "Server \<Rightarrow> event \<Rightarrow> Server" where
  "step sys (Arrive body env) =
     (case handleAnalyze_enter body (srv sys) of
        (Inl resp, s') \<Rightarrow> sys\<lparr> srv := s', responses := responses sys @ [resp] \<rparr>
      | (Inr u, s') \<Rightarrow> sys\<lparr> srv := s', inflight := inflight sys @ [env] \<rparr>)"
| "step sys Settle =
     (case inflight sys of
        [] \<Rightarrow> sys
      | env # rest \<Rightarrow>
          (let (resp, s') = handleAnalyze_resume (snd (runOnce env)) (srv sys)
           in sys\<lparr> srv := s', inflight := rest, responses := responses sys @ [resp] \<rparr>))"

definition run :: "Server \<Rightarrow> event list \<Rightarrow> Server" where
  "run sys evs = foldl step sys evs"

section \<open>Notions used in the statements\<close>

text \<open>
  The contract \<^verbatim>\<open>parseStudentInsights\<close> enforces on an accepted value, in the words of
  the interface: three required strings that are not empty after \<^verbatim>\<open>trim\<close>, one to
  three strengths, one or two improvement areas, two or three strategies, every element
  a string that is not empty after \<^verbatim>\<open>trim\<close>.
\<close>

definition nonBlank :: "jstring \<Rightarrow> bool" where
  "nonBlank s = (trim s \<noteq> [])"

definition satisfiesStudentContract :: "StudentInsights \<Rightarrow> bool" where
  "satisfiesStudentContract i =
     (nonBlank (positiveObservation i) \<and> nonBlank (nextStepGoal i) \<and> nonBlank (encouragement i)
      \<and> 1 \<le> length (strengths i) \<and> length (strengths i) \<le> 3
      \<and> 1 \<le> length (improvementAreas i) \<and> length (improvementAreas i) \<le> 2
      \<and> 2 \<le> length (strategies i) \<and> length (strategies i) \<le> 3
      \<and> list_all nonBlank (strengths i)
      \<and> list_all nonBlank (improvementAreas i)
      \<and> list_all nonBlank (strategies i))"

text \<open>
  The elements of a list in the order of their first occurrence, each once.
\<close>

fun dedupFirst :: "'a list \<Rightarrow> 'a list" where
  "dedupFirst [] = []"
| "dedupFirst (x # xs) = x # dedupFirst (removeAll x xs)"

subsection \<open>Sample inputs\<close>

text \<open>The student of the analyzer's unit test.\<close>

definition exStudent :: "Grade list Student" where
  "exStudent =
     \<lparr> id_s = (js ''S100''), name = (js ''Test Student''), email = (js ''test@example.com''),
       grades = [\<lparr> subject = (js ''Math''), score = 90 \<rparr>, \<lparr> subject = (js ''English''), score = 70 \<rparr>],
       participationScore = 5, assignmentCompletionRate = 60,
       teacherNotes = (js ''Needs confidence in class.''), performanceTrend = Declining,
       lastAssessmentDate = (js ''2024-09-01'') \<rparr>"

text \<open>
  A validated student whose mean is 69.995 in exact arithmetic and 69.99 after the
  roundings of the runtime.
\<close>

definition exStudentRounding :: "Grade list Student" where
  "exStudentRounding =
     \<lparr> id_s = js ''S200'', name = js ''Rounding Student'', email = js ''rounding@example.com'',
       grades = [\<lparr> subject = js ''Math'', score = 60 \<rparr>,
                 \<lparr> subject = js ''English'', score = roundToDouble (6424 / 100) \<rparr>,
                 \<lparr> subject = js ''Art'', score = roundToDouble (6828 / 100) \<rparr>,
                 \<lparr> subject = js ''Science'', score = roundToDouble (8746 / 100) \<rparr>],
       participationScore = 10, assignmentCompletionRate = 100,
       teacherNotes = js ''Steady work.'', performanceTrend = Stable,
       lastAssessmentDate = js ''2024-09-01'' \<rparr>"

text \<open>
  Preferences whose class goal is padded with no-break spaces and whose first preferred
  strategy holds only a no-break space and a space.
\<close>

definition exPreferences :: TeacherPreferences where
  "exPreferences =
     \<lparr> classGoals = Some [[0xA0, 0x20] @ js ''Read twenty minutes a day'' @ [0x20, 0xA0]],
       focusAreas = None,
       preferredStrategies = Some [[0xA0, 0x20], js ''Work with a study partner''],
       tone = Some Warm,
       p_teacherNotes = None \<rparr>"

definition exInsights :: StudentInsights where
  "exInsights =
     \<lparr> positiveObservation = (js ''You showed steady effort this week.''),
       strengths = [(js ''Consistent participation''), (js '' You showed steady effort this week. ''),
                    (js ''Careful reading''), (js ''Clear writing'')],
       improvementAreas = [(js ''Assignment organization'')],
       strategies = [(js ''Use a checklist''), (js ''Review notes for 15 minutes nightly'')],
       nextStepGoal = (js ''Complete all assignments on time this week.''),
       encouragement = (js ''Small steps add up.'') \<rparr>"

definition exMemory :: StudentMemory where
  "exMemory =
     \<lparr> studentId = (js ''S100''), summary = (js ''Earlier summary''),
       m_strengths = [(js ''Curiosity'')], m_improvementAreas = [(js ''Homework'')],
       goals = [js ''Ask one question per class'' @ [0xA0],
                js ''Complete all assignments on time this week.'',
                js ''Ask one question per class''],
       lastUpdated = (js ''2024-09-01T00:00:00.000Z''),
       history = [\<lparr> e_date = (js ''2024-09-01T00:00:00.000Z''), e_note = (js ''first'') \<rparr>,
                  \<lparr> e_date = (js ''2024-08-01T00:00:00.000Z''), e_note = (js ''second'') \<rparr>,
                  \<lparr> e_date = (js ''2024-07-01T00:00:00.000Z''), e_note = (js ''third'') \<rparr>] \<rparr>"












text \<open>A store whose only array is not sorted by score, and a student that refers to it.\<close>

definition exStore :: store where
  "exStore = [[\<lparr> subject = (js ''English''), score = 70 \<rparr>, \<lparr> subject = (js ''Math''), score = 90 \<rparr>,
               \<lparr> subject = (js ''Art''), score = 80 \<rparr>]]"

definition exStudentRef :: "addr Student" where
  "exStudentRef =
     \<lparr> id_s = (js ''S100''), name = (js ''Test Student''), email = (js ''test@example.com''),
       grades = 0,
       participationScore = 5, assignmentCompletionRate = 60,
       teacherNotes = (js ''Needs confidence in class.''), performanceTrend = Declining,
       lastAssessmentDate = (js ''2024-09-01'') \<rparr>"

text \<open>
  When a required field of the student contract is missing or invalid: a string field that
  is absent, not a string, or empty after \<^verbatim>\<open>trim\<close>; an array field that is absent, not
  an array, or has fewer usable elements than its minimum.
\<close>

fun nonEmptyStringValue :: "json \<Rightarrow> bool" where
  "nonEmptyStringValue (JStr v) = (trim v \<noteq> [])"
| "nonEmptyStringValue _ = False"

definition stringFieldInvalid :: "json \<Rightarrow> jstring \<Rightarrow> bool" where
  "stringFieldInvalid parsed k =
     (case getProp parsed k of None \<Rightarrow> True | Some v \<Rightarrow> \<not> nonEmptyStringValue v)"

definition arrayFieldInvalid :: "json \<Rightarrow> jstring \<Rightarrow> nat \<Rightarrow> bool" where
  "arrayFieldInvalid parsed k mn =
     (case getProp parsed k of
        Some (JArr xs) \<Rightarrow> length (filter nonEmptyStringValue xs) < mn
      | _ \<Rightarrow> True)"

definition studentRequiredFields :: "jstring list" where
  "studentRequiredFields =
     [(js ''positiveObservation''), (js ''nextStepGoal''), (js ''encouragement''),
      (js ''strengths''), (js ''improvementAreas''), (js ''strategies'')]"

definition studentFieldInvalid :: "json \<Rightarrow> jstring \<Rightarrow> bool" where
  "studentFieldInvalid parsed k =
     (if k = (js ''strengths'') then arrayFieldInvalid parsed k 1
      else if k = (js ''improvementAreas'') then arrayFieldInvalid parsed k 1
      else if k = (js ''strategies'') then arrayFieldInvalid parsed k 2
      else stringFieldInvalid parsed k)"

text \<open>
  The object \<^verbatim>\<open>JSON.parse\<close> returns for the text \<^verbatim>\<open>JSON.stringify\<close> writes for an
  insights value.
\<close>

definition insightsJson :: "StudentInsights \<Rightarrow> json" where
  "insightsJson i =
     JObj [((js ''positiveObservation''), JStr (positiveObservation i)),
           ((js ''strengths''), JArr (map JStr (strengths i))),
           ((js ''improvementAreas''), JArr (map JStr (improvementAreas i))),
           ((js ''strategies''), JArr (map JStr (strategies i))),
           ((js ''nextStepGoal''), JStr (nextStepGoal i)),
           ((js ''encouragement''), JStr (encouragement i))]"

text \<open>The rejected payload of the unit test, and a parser that reads it.\<close>

definition exRaw :: jstring where
  \<open>exRaw = (js ''{ "positiveObservation": "Good job" }'')\<close>

definition exParsed :: json where
  "exParsed = JObj [((js ''positiveObservation''), JStr (js ''Good job''))]"

text \<open>
  A payload that is complete except that its \<^verbatim>\<open>positiveObservation\<close> is a single
  no-break space.
\<close>

definition exParsedNbsp :: json where
  "exParsedNbsp =
     JObj [(js ''positiveObservation'', JStr [0xA0]),
           (js ''strengths'', JArr [JStr (js ''Consistent participation'')]),
           (js ''improvementAreas'', JArr [JStr (js ''Assignment organization'')]),
           (js ''strategies'', JArr [JStr (js ''Use a checklist''),
                                     JStr (js ''Review notes for 15 minutes nightly'')]),
           (js ''nextStepGoal'', JStr (js ''Complete all assignments on time this week.'')),
           (js ''encouragement'', JStr (js ''Small steps add up.''))]"

definition exParse :: "jstring \<Rightarrow> json option" where
  "exParse s = (if s = exRaw then Some exParsed else None)"


text \<open>
  Sample runs: a batch without a valid record; a batch of one record whose teacher stage
  raises after the row with status \<^verbatim>\<open>sent\<close> is recorded, at the memory update; a
  further run that differs in its id only.
\<close>

definition exEnvEmpty :: run_env where
  "exEnvEmpty =
     \<lparr> runId = (js ''run-0''), startedAt = (js ''2024-10-01T00:00:00.000Z''), loadError = None,
       totalCount = 1, students = [], jsonParse = exParse, teacherRules = None,
       teacherEmail = (js ''teacher@example.com''),
       roundDouble = roundToDouble,
       analyzeThrows = (\<lambda>sid. None),
       studentInsightsRaw = (\<lambda>sid. exRaw),
       studentThrowsAt = (\<lambda>sid. None),
       teacherSummaryRaw = exRaw,
       teacherThrowsAt = None \<rparr>"

definition exEnvGroupFails :: run_env where
  "exEnvGroupFails =
     exEnvEmpty \<lparr> runId := (js ''run-1''), students := [exStudent], teacherThrowsAt := Some 4 \<rparr>"


section \<open>Verified properties\<close>

subsection \<open>Strings\<close>

lemma inj_of_char_int: "inj (of_char :: char \<Rightarrow> int)"
  by (rule inj_on_inverseI [where g = char_of]) simp

lemma js_eq_iff [simp]: "js a = js b \<longleftrightarrow> a = b"
  unfolding js_def using inj_of_char_int by (simp add: inj_map_eq_map)

lemma js_eq_Nil [simp]: "js a = [] \<longleftrightarrow> a = []" "[] = js a \<longleftrightarrow> a = []"
  by (auto simp: js_def)

lemma prefix_js [simp]: "prefix (js a) (js b) \<longleftrightarrow> prefix a b"
  unfolding js_def using inj_of_char_int by (simp add: inj_on_def map_mono_prefix prefix_map_rightE)
     (metis inj_map_eq_map inj_of_char_int map_mono_prefix prefix_map_rightE)

lemma js_Cons: "js (c # cs) = of_char c # js cs"
  by (simp add: js_def)

subsection \<open>Risk classification\<close>

lemma exStudent_average: "average roundToDouble (map score (grades exStudent)) = 80"
  by code_simp

lemma exStudentRounding_average:
  "average roundToDouble (map score (grades exStudentRounding)) = roundToDouble (6999 / 100)"
  by code_simp

lemma roundToDouble_6999: "roundToDouble (6999 / 100) < 70"
  by code_simp

text \<open>
  C1. Whatever the rounding of the arithmetic, the risk level of an analysis is high when
  the average stored in its metrics is below 70, or participation is at most 4, or the
  completion rate is below 70, or the trend is declining; otherwise medium when that
  average is below 80, or participation is at most 6, or the completion rate is below 85;
  otherwise low. The stored average is the rounded mean of the scores, and participation,
  completion rate and trend are those of the student. A student whose trend is declining
  is always at high risk.
\<close>

theorem analyzeStudent_riskLevel:
  "riskLevel (analyzeStudent rnd st) =
     (if averageScore (metrics (analyzeStudent rnd st)) < 70 \<or> participationScore st \<le> 4
         \<or> assignmentCompletionRate st < 70 \<or> performanceTrend st = Declining then High
      else if averageScore (metrics (analyzeStudent rnd st)) < 80 \<or> participationScore st \<le> 6
         \<or> assignmentCompletionRate st < 85 then Medium
      else Low)
   \<and> averageScore (metrics (analyzeStudent rnd st)) = average rnd (map score (grades st))
   \<and> (performanceTrend st = Declining \<longrightarrow> riskLevel (analyzeStudent rnd st) = High)"
  by (simp add: analyzeStudent_def determineRisk_def Let_def)

theorem analyzeStudent_riskLevel_witness:
  "performanceTrend exStudent = Declining \<and> assignmentCompletionRate exStudent < 70
   \<and> averageScore (metrics (analyzeStudent roundToDouble exStudent)) = 80
   \<and> riskLevel (analyzeStudent roundToDouble exStudent) = High
   \<and> averageScore (metrics (analyzeStudent roundToDouble exStudentRounding))
        = roundToDouble (6999 / 100)
   \<and> riskLevel (analyzeStudent roundToDouble exStudentRounding) = High"
proof -
  have a: "performanceTrend exStudent = Declining \<and> assignmentCompletionRate exStudent < 70"
    by (simp add: exStudent_def)
  show ?thesis
    using analyzeStudent_riskLevel [of roundToDouble exStudent]
      analyzeStudent_riskLevel [of roundToDouble exStudentRounding]
      exStudent_average exStudentRounding_average roundToDouble_6999 a
    by simp
qed

subsection \<open>The parsers\<close>

lemma indexOf_ge: "- 1 \<le> indexOf xs c"
  by (induction xs) (auto simp: Let_def)

lemma lastIndexOf_less: "lastIndexOf xs c < int (length xs)"
  by (induction xs) (auto simp: Let_def)

lemma extractJsonObject_nonempty: "extractJsonObject raw = Some c \<Longrightarrow> c \<noteq> []"
proof -
  assume a: "extractJsonObject raw = Some c"
  define s where "s = indexOf raw (of_char (CHR ''{''))"
  define e where "e = lastIndexOf raw (of_char (CHR ''}''))"
  have ne: "s \<noteq> - 1" "s < e" and c: "c = slice raw s (e + 1)"
    using a by (auto simp: extractJsonObject_def Let_def s_def e_def split: if_splits)
  have s0: "0 \<le> s" using indexOf_ge [of raw "of_char (CHR ''{'')"] ne(1) by (simp add: s_def)
  have el: "e < int (length raw)" unfolding e_def by (rule lastIndexOf_less)
  have "nat s < length raw" using s0 ne(2) el by linarith
  then have d: "drop (nat s) raw \<noteq> []" by simp
  have k: "nat (e + 1) - nat s \<noteq> 0" using s0 ne(2) by linarith
  show ?thesis unfolding c slice_def using d k by (simp only: take_eq_Nil simp_thms not_False_eq_True)
qed

lemma safeString_None_iff:
  "safeString v n = None \<longleftrightarrow> (case v of None \<Rightarrow> True | Some j \<Rightarrow> \<not> nonEmptyStringValue j)"
proof (cases v)
  case None
  then show ?thesis by simp
next
  case (Some j)
  then show ?thesis by (cases j) (simp_all add: Let_def)
qed

lemma safeString_field: "safeString (getProp parsed k) n = None \<longleftrightarrow> stringFieldInvalid parsed k"
  by (simp add: safeString_None_iff stringFieldInvalid_def)

lemma length_cleaned:
  "length (List.map_filter (\<lambda>item. safeString (Some item) n) xs) = length (filter nonEmptyStringValue xs)"
proof (induction xs)
  case Nil
  show ?case by (simp add: List.map_filter_simps)
next
  case (Cons x xs)
  show ?case
  proof (cases "safeString (Some x) n")
    case None
    then have "\<not> nonEmptyStringValue x" by (simp add: safeString_None_iff)
    then show ?thesis using None Cons by (simp add: List.map_filter_simps)
  next
    case (Some y)
    then have "nonEmptyStringValue x" using safeString_None_iff [of "Some x" n] by auto
    then show ?thesis using Some Cons by (simp add: List.map_filter_simps)
  qed
qed

lemma normalizeStringArray_field:
  "(arrayFieldInvalid parsed k mn \<longrightarrow>
      (\<exists>e. normalizeStringArray (getProp parsed k) mn mx k = Fail [e] \<and> prefix k e))
   \<and> (\<not> arrayFieldInvalid parsed k mn \<longrightarrow>
      (\<exists>xs. normalizeStringArray (getProp parsed k) mn mx k = Ok xs))"
proof (cases "getProp parsed k")
  case None
  then show ?thesis by (simp add: arrayFieldInvalid_def)
next
  case (Some j)
  then show ?thesis
    by (cases j) (simp_all add: arrayFieldInvalid_def Let_def length_cleaned)
qed

lemma studentFieldInvalid_simps:
  "studentFieldInvalid parsed (js ''positiveObservation'') = stringFieldInvalid parsed (js ''positiveObservation'')"
  "studentFieldInvalid parsed (js ''nextStepGoal'') = stringFieldInvalid parsed (js ''nextStepGoal'')"
  "studentFieldInvalid parsed (js ''encouragement'') = stringFieldInvalid parsed (js ''encouragement'')"
  "studentFieldInvalid parsed (js ''strengths'') = arrayFieldInvalid parsed (js ''strengths'') 1"
  "studentFieldInvalid parsed (js ''improvementAreas'') = arrayFieldInvalid parsed (js ''improvementAreas'') 1"
  "studentFieldInvalid parsed (js ''strategies'') = arrayFieldInvalid parsed (js ''strategies'') 2"
  by (simp_all add: studentFieldInvalid_def)

lemma parseStudentInsights_on_object:
  assumes "extractJsonObject raw = Some c" and "jp c = Some parsed" and "isObject parsed"
  shows "(\<exists>v. parseStudentInsights jp raw = Ok v
            \<and> (\<forall>k\<in>set studentRequiredFields. \<not> studentFieldInvalid parsed k))
       \<or> (\<exists>errs. parseStudentInsights jp raw = Fail errs
            \<and> (\<exists>k\<in>set studentRequiredFields. studentFieldInvalid parsed k)
            \<and> (\<forall>k\<in>set studentRequiredFields.
                  studentFieldInvalid parsed k \<longrightarrow> (\<exists>e\<in>set errs. prefix k e))
            \<and> length errs = length (filter (studentFieldInvalid parsed) studentRequiredFields))"
proof -
  define po where "po = safeString (getProp parsed (js ''positiveObservation'')) 220"
  define gl where "gl = safeString (getProp parsed (js ''nextStepGoal'')) 200"
  define en where "en = safeString (getProp parsed (js ''encouragement'')) 200"
  define sr where "sr = normalizeStringArray (getProp parsed (js ''strengths'')) 1 3 (js ''strengths'')"
  define ir where "ir = normalizeStringArray (getProp parsed (js ''improvementAreas'')) 1 2 (js ''improvementAreas'')"
  define tr where "tr = normalizeStringArray (getProp parsed (js ''strategies'')) 2 3 (js ''strategies'')"
  define e1 where "e1 = (if po = None then [(js ''positiveObservation must be a non-empty string'')] else [])"
  define e2 where "e2 = (if gl = None then [(js ''nextStepGoal must be a non-empty string'')] else [])"
  define e3 where "e3 = (if en = None then [(js ''encouragement must be a non-empty string'')] else [])"
  define errs where "errs = e1 @ e2 @ e3 @ errorsOf sr @ errorsOf ir @ errorsOf tr"
  have cne: "c \<noteq> []" using assms(1) by (rule extractJsonObject_nonempty)
  have P: "parseStudentInsights jp raw =
     (if length errs > 0 then Fail errs
      else (case (po, gl, en, sr, ir, tr) of
              (Some p, Some g, Some e, Ok ss, Ok im, Ok st) \<Rightarrow>
                Ok \<lparr> positiveObservation = p, strengths = ss, improvementAreas = im,
                     strategies = st, nextStepGoal = g, encouragement = e \<rparr>
            | _ \<Rightarrow> Fail [(js ''Invalid student insights payload'')]))"
    using assms cne
    by (simp add: parseStudentInsights_def Let_def po_def gl_def en_def sr_def ir_def tr_def
          errs_def e1_def e2_def e3_def)
  have i1: "studentFieldInvalid parsed (js ''positiveObservation'') \<longleftrightarrow> po = None"
    by (simp add: studentFieldInvalid_simps po_def safeString_field)
  have i2: "studentFieldInvalid parsed (js ''nextStepGoal'') \<longleftrightarrow> gl = None"
    by (simp add: studentFieldInvalid_simps gl_def safeString_field)
  have i3: "studentFieldInvalid parsed (js ''encouragement'') \<longleftrightarrow> en = None"
    by (simp add: studentFieldInvalid_simps en_def safeString_field)
  have a4: "(studentFieldInvalid parsed (js ''strengths'') \<longrightarrow> (\<exists>e. sr = Fail [e] \<and> prefix (js ''strengths'') e))
          \<and> (\<not> studentFieldInvalid parsed (js ''strengths'') \<longrightarrow> (\<exists>xs. sr = Ok xs))"
    unfolding studentFieldInvalid_simps sr_def by (rule normalizeStringArray_field)
  have a5: "(studentFieldInvalid parsed (js ''improvementAreas'')
              \<longrightarrow> (\<exists>e. ir = Fail [e] \<and> prefix (js ''improvementAreas'') e))
          \<and> (\<not> studentFieldInvalid parsed (js ''improvementAreas'') \<longrightarrow> (\<exists>xs. ir = Ok xs))"
    unfolding studentFieldInvalid_simps ir_def by (rule normalizeStringArray_field)
  have a6: "(studentFieldInvalid parsed (js ''strategies'') \<longrightarrow> (\<exists>e. tr = Fail [e] \<and> prefix (js ''strategies'') e))
          \<and> (\<not> studentFieldInvalid parsed (js ''strategies'') \<longrightarrow> (\<exists>xs. tr = Ok xs))"
    unfolding studentFieldInvalid_simps tr_def by (rule normalizeStringArray_field)
  have l1: "length e1 = (if studentFieldInvalid parsed (js ''positiveObservation'') then 1 else 0)"
    and m1: "studentFieldInvalid parsed (js ''positiveObservation'')
             \<Longrightarrow> \<exists>e\<in>set e1. prefix (js ''positiveObservation'') e"
    by (simp_all add: e1_def i1)
  have l2: "length e2 = (if studentFieldInvalid parsed (js ''nextStepGoal'') then 1 else 0)"
    and m2: "studentFieldInvalid parsed (js ''nextStepGoal'') \<Longrightarrow> \<exists>e\<in>set e2. prefix (js ''nextStepGoal'') e"
    by (simp_all add: e2_def i2)
  have l3: "length e3 = (if studentFieldInvalid parsed (js ''encouragement'') then 1 else 0)"
    and m3: "studentFieldInvalid parsed (js ''encouragement'') \<Longrightarrow> \<exists>e\<in>set e3. prefix (js ''encouragement'') e"
    by (simp_all add: e3_def i3)
  have l4: "length (errorsOf sr) = (if studentFieldInvalid parsed (js ''strengths'') then 1 else 0)"
    and m4: "studentFieldInvalid parsed (js ''strengths'') \<Longrightarrow> \<exists>e\<in>set (errorsOf sr). prefix (js ''strengths'') e"
    using a4 by auto
  have l5: "length (errorsOf ir) = (if studentFieldInvalid parsed (js ''improvementAreas'') then 1 else 0)"
    and m5: "studentFieldInvalid parsed (js ''improvementAreas'')
             \<Longrightarrow> \<exists>e\<in>set (errorsOf ir). prefix (js ''improvementAreas'') e"
    using a5 by auto
  have l6: "length (errorsOf tr) = (if studentFieldInvalid parsed (js ''strategies'') then 1 else 0)"
    and m6: "studentFieldInvalid parsed (js ''strategies'') \<Longrightarrow> \<exists>e\<in>set (errorsOf tr). prefix (js ''strategies'') e"
    using a6 by auto
  have len: "length errs = length (filter (studentFieldInvalid parsed) studentRequiredFields)"
    by (simp add: errs_def studentRequiredFields_def l1 l2 l3 l4 l5 l6)
  have msgs: "\<forall>k\<in>set studentRequiredFields.
                 studentFieldInvalid parsed k \<longrightarrow> (\<exists>e\<in>set errs. prefix k e)"
    using m1 m2 m3 m4 m5 m6 by (auto simp: studentRequiredFields_def errs_def)
  show ?thesis
  proof (cases "errs = []")
    case True
    then have none: "\<forall>k\<in>set studentRequiredFields. \<not> studentFieldInvalid parsed k"
      using len by (simp add: filter_empty_conv)
    then have "po \<noteq> None" "gl \<noteq> None" "en \<noteq> None"
      using i1 i2 i3 by (simp_all add: studentRequiredFields_def)
    moreover have "\<exists>xs. sr = Ok xs" "\<exists>xs. ir = Ok xs" "\<exists>xs. tr = Ok xs"
      using none a4 a5 a6 by (simp_all add: studentRequiredFields_def)
    ultimately have "\<exists>v. parseStudentInsights jp raw = Ok v"
      using True by (auto simp: P)
    then show ?thesis using none by blast
  next
    case False
    then have f: "parseStudentInsights jp raw = Fail errs" by (simp add: P)
    have "filter (studentFieldInvalid parsed) studentRequiredFields \<noteq> []"
      using False len by auto
    then have "\<exists>k\<in>set studentRequiredFields. studentFieldInvalid parsed k"
      by (simp add: filter_empty_conv)
    then show ?thesis using f msgs len by blast
  qed
qed

text \<open>
  C6. When the extracted text parses to an object, the parser either accepts, and then no
  required field is missing or invalid, or it fails with a list that holds, for every
  required field that is missing or invalid, a message that starts with the name of the
  field: one message per such field, whatever the number of violations.
\<close>

theorem parseStudentInsights_collects_all:
  assumes "extractJsonObject raw = Some c" and "jp c = Some parsed" and "isObject parsed"
  shows "(\<exists>v. parseStudentInsights jp raw = Ok v
            \<and> (\<forall>k\<in>set studentRequiredFields. \<not> studentFieldInvalid parsed k))
       \<or> (\<exists>errs. parseStudentInsights jp raw = Fail errs
            \<and> (\<exists>k\<in>set studentRequiredFields. studentFieldInvalid parsed k)
            \<and> (\<forall>k\<in>set studentRequiredFields.
                  studentFieldInvalid parsed k \<longrightarrow> (\<exists>e\<in>set errs. prefix k e))
            \<and> length errs = length (filter (studentFieldInvalid parsed) studentRequiredFields))"
  using assms by (rule parseStudentInsights_on_object)

lemma exRaw_extract: "extractJsonObject exRaw = Some exRaw"
  by code_simp

theorem parseStudentInsights_collects_all_witness:
  "extractJsonObject exRaw = Some exRaw \<and> exParse exRaw = Some exParsed \<and> isObject exParsed
   \<and> \<not> studentFieldInvalid exParsed (js ''positiveObservation'')
   \<and> studentFieldInvalid exParsed (js ''nextStepGoal'')
   \<and> studentFieldInvalid exParsed (js ''strategies'')
   \<and> (\<exists>errs. parseStudentInsights exParse exRaw = Fail errs
         \<and> (\<exists>e\<in>set errs. prefix (js ''nextStepGoal'') e)
         \<and> (\<exists>e\<in>set errs. prefix (js ''strategies'') e)
         \<and> length errs = 5)
   \<and> studentFieldInvalid exParsedNbsp (js ''positiveObservation'')
   \<and> (\<exists>errs. parseStudentInsights (\<lambda>text. Some exParsedNbsp) exRaw = Fail errs
         \<and> (\<exists>e\<in>set errs. prefix (js ''positiveObservation'') e)
         \<and> length errs = 1)"
proof -
  have p: "exParse exRaw = Some exParsed" by (simp add: exParse_def)
  have o: "isObject exParsed" by (simp add: exParsed_def)
  have v: "\<not> studentFieldInvalid exParsed (js ''positiveObservation'')"
    by code_simp
  have g: "studentFieldInvalid exParsed (js ''nextStepGoal'')"
    by code_simp
  have s: "studentFieldInvalid exParsed (js ''strategies'')"
    by code_simp
  have n: "length (filter (studentFieldInvalid exParsed) studentRequiredFields) = 5"
    by code_simp
  have k: "js ''nextStepGoal'' \<in> set studentRequiredFields"
    "js ''strategies'' \<in> set studentRequiredFields"
    "js ''positiveObservation'' \<in> set studentRequiredFields"
    by (simp_all add: studentRequiredFields_def)
  have o2: "isObject exParsedNbsp" by (simp add: exParsedNbsp_def)
  have b: "studentFieldInvalid exParsedNbsp (js ''positiveObservation'')"
    by code_simp
  have n2: "length (filter (studentFieldInvalid exParsedNbsp) studentRequiredFields) = 1"
    by code_simp
  have first: "\<exists>errs. parseStudentInsights exParse exRaw = Fail errs
         \<and> (\<exists>e\<in>set errs. prefix (js ''nextStepGoal'') e)
         \<and> (\<exists>e\<in>set errs. prefix (js ''strategies'') e)
         \<and> length errs = 5"
    using parseStudentInsights_collects_all [of exRaw exRaw exParse exParsed]
      exRaw_extract p o g s n k
    by (metis (no_types, lifting))
  have second: "\<exists>errs. parseStudentInsights (\<lambda>text. Some exParsedNbsp) exRaw = Fail errs
         \<and> (\<exists>e\<in>set errs. prefix (js ''positiveObservation'') e)
         \<and> length errs = 1"
    using parseStudentInsights_collects_all [of exRaw exRaw "\<lambda>text. Some exParsedNbsp" exParsedNbsp]
      exRaw_extract o2 b n2 k
    by (metis (no_types, lifting))
  show ?thesis
    using exRaw_extract p o v g s b first second by blast
qed

lemma parseStudentInsights_total:
  "(\<exists>v. parseStudentInsights jp raw = Ok v)
   \<or> (\<exists>es. parseStudentInsights jp raw = Fail es \<and> es \<noteq> [])"
proof (cases "parseStudentInsights jp raw")
  case (Ok v)
  then show ?thesis by simp
next
  case (Fail es)
  then have "es \<noteq> []"
    by (auto simp: parseStudentInsights_def Let_def
             split: option.splits ValidationResult.splits if_splits)
  then show ?thesis using Fail by simp
qed

lemma parseTeacherInsights_total:
  "(\<exists>v. parseTeacherInsights jp raw = Ok v)
   \<or> (\<exists>es. parseTeacherInsights jp raw = Fail es \<and> es \<noteq> [])"
proof (cases "parseTeacherInsights jp raw")
  case (Ok v)
  then show ?thesis by simp
next
  case (Fail es)
  then have "es \<noteq> []"
    by (auto simp: parseTeacherInsights_def Let_def
             split: option.splits ValidationResult.splits if_splits prod.splits)
  then show ?thesis using Fail by simp
qed

text \<open>
  C8. On every input each parser returns a value: a success, or a failure whose error list
  is not empty. The exception of \<^verbatim>\<open>JSON.parse\<close> is the only one that can arise and it
  is caught. A text without an opening or a closing brace, or whose last closing brace is
  not after its first opening brace, and a candidate that does not parse, give the fixed
  one-message failures.
\<close>

theorem parsers_total:
  "((\<exists>v. parseStudentInsights jp raw = Ok v)
      \<or> (\<exists>es. parseStudentInsights jp raw = Fail es \<and> es \<noteq> []))
   \<and> ((\<exists>v. parseTeacherInsights jp raw = Ok v)
      \<or> (\<exists>es. parseTeacherInsights jp raw = Fail es \<and> es \<noteq> []))
   \<and> (indexOf raw (of_char (CHR ''{'')) = - 1 \<or> lastIndexOf raw (of_char (CHR ''}'')) = - 1
        \<or> lastIndexOf raw (of_char (CHR ''}'')) \<le> indexOf raw (of_char (CHR ''{''))
      \<longrightarrow> parseStudentInsights jp raw = Fail [(js ''No JSON object found in response'')]
          \<and> parseTeacherInsights jp raw = Fail [(js ''No JSON object found in response'')])
   \<and> (\<forall>c. extractJsonObject raw = Some c \<and> jp c = None
      \<longrightarrow> parseStudentInsights jp raw = Fail [(js ''Invalid JSON in response'')]
          \<and> parseTeacherInsights jp raw = Fail [(js ''Invalid JSON in response'')])"
proof -
  have a: "indexOf raw (of_char (CHR ''{'')) = - 1 \<or> lastIndexOf raw (of_char (CHR ''}'')) = - 1
        \<or> lastIndexOf raw (of_char (CHR ''}'')) \<le> indexOf raw (of_char (CHR ''{''))
      \<longrightarrow> parseStudentInsights jp raw = Fail [(js ''No JSON object found in response'')]
          \<and> parseTeacherInsights jp raw = Fail [(js ''No JSON object found in response'')]"
    by (auto simp: parseStudentInsights_def parseTeacherInsights_def extractJsonObject_def Let_def)
  have b: "\<forall>c. extractJsonObject raw = Some c \<and> jp c = None
      \<longrightarrow> parseStudentInsights jp raw = Fail [(js ''Invalid JSON in response'')]
          \<and> parseTeacherInsights jp raw = Fail [(js ''Invalid JSON in response'')]"
    using extractJsonObject_nonempty
    by (auto simp: parseStudentInsights_def parseTeacherInsights_def)
  show ?thesis
    by (intro conjI parseStudentInsights_total parseTeacherInsights_total a b)
qed

theorem parsers_total_witness:
  "parseStudentInsights exParse (js ''no braces at all'') = Fail [(js ''No JSON object found in response'')]
   \<and> parseTeacherInsights exParse (js ''} reversed {'') = Fail [(js ''No JSON object found in response'')]
   \<and> extractJsonObject (js ''say {oops} here'') = Some (js ''{oops}'')
   \<and> exParse (js ''{oops}'') = None
   \<and> parseStudentInsights exParse (js ''say {oops} here'') = Fail [(js ''Invalid JSON in response'')]
   \<and> parseTeacherInsights exParse (js ''say {oops} here'') = Fail [(js ''Invalid JSON in response'')]"
proof -
  have i1: "indexOf (js ''no braces at all'') (of_char (CHR ''{'')) = - 1" by code_simp
  have i2: "lastIndexOf (js ''} reversed {'') (of_char (CHR ''}'')) \<le> indexOf (js ''} reversed {'') (of_char (CHR ''{''))"
    by code_simp
  have e: "extractJsonObject (js ''say {oops} here'') = Some (js ''{oops}'')" by code_simp
  have n: "exParse (js ''{oops}'') = None" by code_simp
  show ?thesis
    using parsers_total [of exParse "(js ''no braces at all'')"]
      parsers_total [of exParse "(js ''} reversed {'')"]
      parsers_total [of exParse "(js ''say {oops} here'')"]
      i1 i2 e n
    by blast
qed

subsection \<open>The fallback satisfies the contract\<close>

lemma trim_eq_Nil: "trim s = [] \<longleftrightarrow> (\<forall>c\<in>set s. isSpace c)"
proof
  assume "trim s = []"
  then have "dropWhile isSpace (rev (dropWhile isSpace s)) = []"
    by (simp add: trim_def)
  then have "\<forall>c\<in>set (rev (dropWhile isSpace s)). isSpace c"
    by (simp only: dropWhile_eq_Nil_conv)
  then have a: "\<forall>c\<in>set (dropWhile isSpace s). isSpace c"
    by (simp only: set_rev)
  show "\<forall>c\<in>set s. isSpace c"
  proof (cases "dropWhile isSpace s = []")
    case True
    then show ?thesis by (simp add: dropWhile_eq_Nil_conv)
  next
    case False
    then have "\<not> isSpace (hd (dropWhile isSpace s))" by (rule hd_dropWhile)
    moreover have "hd (dropWhile isSpace s) \<in> set (dropWhile isSpace s)" using False by simp
    ultimately show ?thesis using a by blast
  qed
next
  assume "\<forall>c\<in>set s. isSpace c"
  then have "dropWhile isSpace s = []" by (simp add: dropWhile_eq_Nil_conv)
  then show "trim s = []" unfolding trim_def by (simp only: rev.simps dropWhile.simps)
qed

lemma nonBlank_iff: "nonBlank s \<longleftrightarrow> (\<exists>c\<in>set s. \<not> isSpace c)"
  by (simp add: nonBlank_def trim_eq_Nil)

lemma nonBlank_Cons: "\<not> isSpace c \<Longrightarrow> nonBlank (c # s)"
  by (auto simp: nonBlank_iff)

lemma trim_nonempty_nonBlank: "trim s \<noteq> [] \<Longrightarrow> nonBlank (trim s)"
proof -
  assume "trim s \<noteq> []"
  then have "\<exists>c\<in>set s. \<not> isSpace c" by (simp add: trim_eq_Nil)
  define d where "d = dropWhile isSpace s"
  define e where "e = dropWhile isSpace (rev d)"
  have ts: "trim s = rev e" by (simp add: trim_def d_def e_def)
  with \<open>trim s \<noteq> []\<close> have "e \<noteq> []" by simp
  then have "\<not> isSpace (hd e)" unfolding e_def by (rule hd_dropWhile)
  moreover have "hd e \<in> set (trim s)" using \<open>e \<noteq> []\<close> ts by simp
  ultimately show ?thesis by (auto simp: nonBlank_iff)
qed

lemma pushPreferred_set: "set (pushPreferred ps acc) \<subseteq> set ps \<union> set acc"
proof (induction ps arbitrary: acc)
  case Nil
  show ?case by simp
next
  case (Cons p ps)
  show ?case using Cons.IH [of "if length acc < 3 then acc @ [p] else acc"]
    by (auto split: if_splits)
qed

lemma fillStrategies_length: "2 \<le> length (fillStrategies acc)"
proof (induction acc rule: fillStrategies.induct)
  case (1 strats)
  show ?case
  proof (cases "length strats < 2")
    case True
    then show ?thesis using 1 by (subst fillStrategies.simps) simp
  next
    case False
    then show ?thesis by (subst fillStrategies.simps) simp
  qed
qed

lemma fillStrategies_set:
  "set (fillStrategies acc) \<subseteq>
     insert (js ''Ask for quick feedback from your teacher on one recent assignment.'') (set acc)"
proof (induction acc rule: fillStrategies.induct)
  case (1 strats)
  show ?case
  proof (cases "length strats < 2")
    case True
    then show ?thesis using 1 by (subst fillStrategies.simps) auto
  next
    case False
    then show ?thesis by (subst fillStrategies.simps) auto
  qed
qed


lemma fallback_strategies_ok:
  "2 \<le> length (strategies (buildFallbackStudentInsights a p))
   \<and> length (strategies (buildFallbackStudentInsights a p)) \<le> 3
   \<and> list_all nonBlank (strategies (buildFallbackStudentInsights a p))"
proof -
  define m where "m = metrics a"
  define s4 where "s4 =
     (if m_assignmentCompletionRate m < 85
      then [(js ''Use a checklist and finish assignments 24 hours before the deadline.'')] else [])
     @ (if m_participationScore m \<le> 6
        then [(js ''Prepare one question or comment before class and share it.'')] else [])
     @ (if averageScore m < 75
        then [(js ''Set a 20-minute daily review block and summarize notes in your own words.'')] else [])
     @ (if length (lowestSubjects m) > 0
        then [(js ''Spend extra practice time on '') @ join (js '', '') (map subject (lowestSubjects m))
                @ (js '' with short, focused sessions.'')] else [])"
  define preferred where "preferred =
     (case p of None \<Rightarrow> []
      | Some q \<Rightarrow> (case preferredStrategies q of None \<Rightarrow> []
                  | Some ps \<Rightarrow> filter (\<lambda>item. trim item \<noteq> []) ps))"
  define s6 where "s6 = fillStrategies (pushPreferred preferred s4)"
  have eq: "strategies (buildFallbackStudentInsights a p) = take 3 s6"
    by (simp add: buildFallbackStudentInsights_def Let_def s6_def preferred_def s4_def m_def)
  have len: "2 \<le> length s6" unfolding s6_def by (rule fillStrategies_length)
  have s4nb: "\<forall>x\<in>set s4. nonBlank x"
    by (auto simp: s4_def nonBlank_Cons isSpace_def js_Cons)
  have prefnb: "\<forall>x\<in>set preferred. nonBlank x"
    by (auto simp: preferred_def nonBlank_def split: option.splits)
  have fillnb: "nonBlank (js ''Ask for quick feedback from your teacher on one recent assignment.'')"
    by (simp add: nonBlank_Cons isSpace_def js_Cons)
  have "\<forall>x\<in>set s6. nonBlank x"
  proof
    fix x assume "x \<in> set s6"
    then have "x = (js ''Ask for quick feedback from your teacher on one recent assignment.'')
               \<or> x \<in> set (pushPreferred preferred s4)"
      using fillStrategies_set [of "pushPreferred preferred s4"] unfolding s6_def by blast
    then have "x = (js ''Ask for quick feedback from your teacher on one recent assignment.'')
               \<or> x \<in> set preferred \<or> x \<in> set s4"
      using pushPreferred_set [of preferred s4] by blast
    then show "nonBlank x" using fillnb prefnb s4nb by blast
  qed
  then have "\<forall>x\<in>set (take 3 s6). nonBlank x" by (meson in_set_takeD)
  then have "list_all nonBlank (take 3 s6)" by (simp add: list_all_iff)
  then show ?thesis using len eq by simp
qed

lemma fallback_goal_ok: "nonBlank (nextStepGoal (buildFallbackStudentInsights a p))"
proof -
  have d: "nonBlank (js ''Choose one focus area and practice it three times this week.'')"
    by (simp add: nonBlank_Cons isSpace_def js_Cons)
  show ?thesis
    using d
    by (auto simp: buildFallbackStudentInsights_def Let_def trim_nonempty_nonBlank
             split: option.splits list.splits)
qed

lemma fallback_encouragement_ok: "nonBlank (encouragement (buildFallbackStudentInsights a p))"
  by (simp add: buildFallbackStudentInsights_def Let_def nonBlank_Cons isSpace_def js_Cons)

lemma fallback_strengths_ok:
  assumes "list_all nonBlank (a_strengths a)"
  shows "nonBlank (positiveObservation (buildFallbackStudentInsights a p))
     \<and> 1 \<le> length (strengths (buildFallbackStudentInsights a p))
     \<and> length (strengths (buildFallbackStudentInsights a p)) \<le> 3
     \<and> list_all nonBlank (strengths (buildFallbackStudentInsights a p))"
proof (cases "a_strengths a")
  case Nil
  then show ?thesis
    by (simp add: buildFallbackStudentInsights_def Let_def nonBlank_Cons isSpace_def js_Cons)
next
  case (Cons x xs)
  have "\<forall>y\<in>set (take 3 (x # xs)). nonBlank y"
    using assms Cons by (metis in_set_takeD list_all_iff)
  then have "list_all nonBlank (take 3 (x # xs))" by (simp add: list_all_iff)
  moreover have "nonBlank x" using assms Cons by simp
  moreover have "1 \<le> length (take 3 (x # xs))" by simp
  ultimately show ?thesis using Cons
    by (simp add: buildFallbackStudentInsights_def Let_def)
qed

lemma fallback_improvementAreas_ok:
  assumes "list_all nonBlank (a_improvementAreas a)"
  shows "1 \<le> length (improvementAreas (buildFallbackStudentInsights a p))
     \<and> length (improvementAreas (buildFallbackStudentInsights a p)) \<le> 2
     \<and> list_all nonBlank (improvementAreas (buildFallbackStudentInsights a p))"
proof (cases "a_improvementAreas a")
  case Nil
  then show ?thesis
    by (simp add: buildFallbackStudentInsights_def Let_def nonBlank_Cons isSpace_def js_Cons)
next
  case (Cons x xs)
  have "\<forall>y\<in>set (take 2 (x # xs)). nonBlank y"
    using assms Cons by (metis in_set_takeD list_all_iff)
  then have "list_all nonBlank (take 2 (x # xs))" by (simp add: list_all_iff)
  moreover have "1 \<le> length (take 2 (x # xs))" by simp
  ultimately show ?thesis using Cons
    by (simp add: buildFallbackStudentInsights_def Let_def)
qed

lemma analyzeStudent_nonBlank:
  "list_all nonBlank (a_strengths (analyzeStudent rnd st))
   \<and> list_all nonBlank (a_improvementAreas (analyzeStudent rnd st))"
  by (simp add: analyzeStudent_def Let_def nonBlank_Cons isSpace_def js_Cons)

lemma contract_fields_valid:
  assumes "satisfiesStudentContract i"
  shows "\<forall>k\<in>set studentRequiredFields. \<not> studentFieldInvalid (insightsJson i) k"
proof -
  have f: "\<And>xs. list_all nonBlank xs \<Longrightarrow> filter nonEmptyStringValue (map JStr xs) = map JStr xs"
    by (simp add: filter_id_conv list_all_iff nonBlank_def)
  show ?thesis
    using assms
    by (auto simp: satisfiesStudentContract_def studentRequiredFields_def studentFieldInvalid_def
          stringFieldInvalid_def arrayFieldInvalid_def insightsJson_def nonBlank_def f)
qed

lemma contract_accepted:
  assumes "satisfiesStudentContract i"
    and "extractJsonObject raw = Some c" and "jp c = Some (insightsJson i)"
  shows "isOk (parseStudentInsights jp raw)"
proof -
  have o: "isObject (insightsJson i)" by (simp add: insightsJson_def)
  show ?thesis
    using parseStudentInsights_on_object [of raw c jp "insightsJson i"] assms(2) assms(3) o
      contract_fields_valid [OF assms(1)]
    by auto
qed

text \<open>
  C2. For every student record, every rounding of the arithmetic and every teacher
  preferences, present or absent, the fallback built from the analysis of the record
  satisfies the contract of the parser: the three required strings are not empty after
  \<^verbatim>\<open>trim\<close>, there are one to three strengths, one or two improvement areas and two
  or three strategies, and no element is empty after \<^verbatim>\<open>trim\<close>; the parser accepts
  the JSON form of that fallback. The same holds of the fallback of any analysis whose
  strengths and improvement areas are not empty after \<^verbatim>\<open>trim\<close>.
\<close>

theorem fallback_satisfies_contract:
  "satisfiesStudentContract (buildFallbackStudentInsights (analyzeStudent rnd st) p)
   \<and> (extractJsonObject raw = Some c
        \<and> jp c = Some (insightsJson (buildFallbackStudentInsights (analyzeStudent rnd st) p))
      \<longrightarrow> isOk (parseStudentInsights jp raw))
   \<and> (list_all nonBlank (a_strengths a) \<and> list_all nonBlank (a_improvementAreas a)
      \<longrightarrow> satisfiesStudentContract (buildFallbackStudentInsights a p))"
proof -
  have g: "list_all nonBlank (a_strengths b) \<and> list_all nonBlank (a_improvementAreas b)
      \<longrightarrow> satisfiesStudentContract (buildFallbackStudentInsights b p)" for b
    unfolding satisfiesStudentContract_def
    using fallback_strategies_ok fallback_goal_ok fallback_encouragement_ok
      fallback_strengths_ok fallback_improvementAreas_ok
    by blast
  have s: "satisfiesStudentContract (buildFallbackStudentInsights (analyzeStudent rnd st) p)"
    using g [of "analyzeStudent rnd st"] analyzeStudent_nonBlank by blast
  show ?thesis
    using g [of a] s contract_accepted [OF s] by blast
qed

theorem fallback_satisfies_contract_witness:
  "satisfiesStudentContract
     (buildFallbackStudentInsights (analyzeStudent roundToDouble exStudentRounding) (Some exPreferences))
   \<and> strategies
        (buildFallbackStudentInsights (analyzeStudent roundToDouble exStudentRounding) (Some exPreferences))
       = [js ''Set a 20-minute daily review block and summarize notes in your own words.'',
          js ''Spend extra practice time on Math, English with short, focused sessions.'',
          js ''Work with a study partner'']
   \<and> nextStepGoal
        (buildFallbackStudentInsights (analyzeStudent roundToDouble exStudentRounding) (Some exPreferences))
       = js ''Read twenty minutes a day''
   \<and> extractJsonObject (js ''{}'') = Some (js ''{}'')
   \<and> isOk (parseStudentInsights
        (\<lambda>text. Some (insightsJson
           (buildFallbackStudentInsights (analyzeStudent roundToDouble exStudentRounding)
              (Some exPreferences))))
        (js ''{}''))
   \<and> list_all nonBlank (a_strengths (analyzeStudent roundToDouble exStudent))
   \<and> list_all nonBlank (a_improvementAreas (analyzeStudent roundToDouble exStudent))
   \<and> satisfiesStudentContract
        (buildFallbackStudentInsights (analyzeStudent roundToDouble exStudent) None)"
proof -
  have h: "list_all nonBlank (a_strengths (analyzeStudent roundToDouble exStudent))
           \<and> list_all nonBlank (a_improvementAreas (analyzeStudent roundToDouble exStudent))"
    by code_simp
  have s: "strategies
        (buildFallbackStudentInsights (analyzeStudent roundToDouble exStudentRounding) (Some exPreferences))
       = [js ''Set a 20-minute daily review block and summarize notes in your own words.'',
          js ''Spend extra practice time on Math, English with short, focused sessions.'',
          js ''Work with a study partner'']"
    by code_simp
  have g: "nextStepGoal
        (buildFallbackStudentInsights (analyzeStudent roundToDouble exStudentRounding) (Some exPreferences))
       = js ''Read twenty minutes a day''"
    by code_simp
  have e: "extractJsonObject (js ''{}'') = Some (js ''{}'')"
    by code_simp
  show ?thesis
    using fallback_satisfies_contract [of roundToDouble exStudentRounding "Some exPreferences"
        "js ''{}''" "js ''{}''"
        "\<lambda>text. Some (insightsJson
           (buildFallbackStudentInsights (analyzeStudent roundToDouble exStudentRounding)
              (Some exPreferences)))"
        "analyzeStudent roundToDouble exStudent"]
      fallback_satisfies_contract [of roundToDouble exStudent None "js ''{}''" "js ''{}''"
        "\<lambda>text. None" "analyzeStudent roundToDouble exStudent"]
      h s g e
    by blast
qed

subsection \<open>Bounded memory\<close>

lemma set_dedupFirst: "set (dedupFirst xs) = set xs"
  by (induction xs rule: dedupFirst.induct) auto

lemma distinct_dedupFirst: "distinct (dedupFirst xs)"
  by (induction xs rule: dedupFirst.induct) (auto simp: set_dedupFirst)

text \<open>
  The loop computes the first \<open>mx\<close> elements, in the order of first occurrence, of the
  elements not seen before.
\<close>

lemma uniqueLoop_spec:
  "seen = set result \<Longrightarrow> length result < mx \<Longrightarrow>
   uniqueLoop xs mx seen result = take mx (result @ dedupFirst (filter (\<lambda>x. x \<notin> seen) xs))"
proof (induction xs arbitrary: seen result)
  case Nil
  then show ?case by simp
next
  case (Cons item xs)
  show ?case
  proof (cases "item \<in> seen")
    case True
    then show ?thesis using Cons by simp
  next
    case False
    have flt: "removeAll item (filter (\<lambda>x. x \<notin> seen) xs) = filter (\<lambda>x. x \<notin> insert item seen) xs"
      by (induction xs) auto
    show ?thesis
    proof (cases "length (result @ [item]) \<ge> mx")
      case True
      then have mx: "mx = Suc (length result)" using Cons.prems by simp
      show ?thesis using False by (simp add: Let_def mx)
    next
      case ge: False
      have "uniqueLoop xs mx (insert item seen) (result @ [item])
            = take mx ((result @ [item]) @ dedupFirst (filter (\<lambda>x. x \<notin> insert item seen) xs))"
        using Cons.prems ge by (intro Cons.IH) auto
      then show ?thesis using False ge flt by (simp add: Let_def)
    qed
  qed
qed

lemma uniqueList_spec:
  "0 < mx \<Longrightarrow> uniqueList items mx = take mx (dedupFirst (filter (\<lambda>s. s \<noteq> []) (map trim items)))"
  by (simp add: uniqueList_def Let_def uniqueLoop_spec)

lemma trimHistory_length: "of_nat (length (trimHistory es limit)) \<le> max 0 limit"
proof (cases "limit \<le> 0")
  case True
  then show ?thesis by (simp add: trimHistory_def)
next
  case False
  then have f0: "0 \<le> \<lfloor>limit\<rfloor>" by simp
  have "(of_nat (nat \<lfloor>limit\<rfloor>) :: rat) = of_int \<lfloor>limit\<rfloor>" using f0 by simp
  also have "\<dots> \<le> limit" by (rule of_int_floor_le)
  finally have a: "(of_nat (nat \<lfloor>limit\<rfloor>) :: rat) \<le> limit" .
  have "length (trimHistory es limit) \<le> nat \<lfloor>limit\<rfloor>"
    using False by (simp add: trimHistory_def)
  then have "(of_nat (length (trimHistory es limit)) :: rat) \<le> of_nat (nat \<lfloor>limit\<rfloor>)"
    by (simp only: of_nat_le_iff)
  then have "(of_nat (length (trimHistory es limit)) :: rat) \<le> limit" using a by (rule order_trans)
  then show ?thesis by simp
qed

lemma trimHistory_first:
  "trimHistory (e # es) limit = (if 1 \<le> limit then e # take (nat \<lfloor>limit\<rfloor> - 1) es else [])"
proof (cases "1 \<le> limit")
  case True
  then have "1 \<le> \<lfloor>limit\<rfloor>" by simp
  then obtain k where k: "nat \<lfloor>limit\<rfloor> = Suc k" by (metis Suc_le_D nat_1 nat_mono One_nat_def)
  show ?thesis using True k by (simp add: trimHistory_def)
next
  case False
  then have "\<lfloor>limit\<rfloor> < 1" by (simp add: floor_less_iff)
  then have "nat \<lfloor>limit\<rfloor> = 0" by simp
  then show ?thesis using False by (simp add: trimHistory_def)
qed

lemma updateMany_history:
  "of_nat (length (history p)) \<le> max 0 L \<Longrightarrow>
   of_nat (length (history (updateMany p runs L))) \<le> max 0 L"
proof (induction runs arbitrary: p)
  case Nil
  then show ?case by simp
next
  case (Cons r rs)
  obtain now st ins where r: "r = (now, st, ins)" by (cases r) auto
  have "of_nat (length (history (updateStudentMemory now p st ins L))) \<le> max 0 L"
    by (simp add: updateStudentMemory_def Let_def trimHistory_length)
  then show ?case using Cons.IH r by simp
qed

text \<open>
  C4, as amended. The history of the snapshot \<^verbatim>\<open>updateStudentMemory\<close> returns has at
  most \<open>max 0 historyLimit\<close> entries: when the limit is at least 1 it is the new entry
  followed by the most recent earlier ones, and when the limit is below 1, a fraction
  included, it is empty.
  The strengths, improvement areas and goals are the first three distinct non-empty
  trimmed items in the order of first occurrence, so they have at most three elements
  and no duplicates. After any non-empty sequence of updates the history is within the
  same bound.
\<close>

theorem updateStudentMemory_bounded:
  "of_nat (length (history (updateStudentMemory now previous st insights historyLimit)))
      \<le> max 0 historyLimit
   \<and> history (updateStudentMemory now previous st insights historyLimit)
       = (if 1 \<le> historyLimit
          then historyEntryOf now insights # take (nat \<lfloor>historyLimit\<rfloor> - 1) (history previous)
          else [])
   \<and> m_strengths (updateStudentMemory now previous st insights historyLimit)
        = take 3 (dedupFirst (filter (\<lambda>s. s \<noteq> [])
            (map trim (positiveObservation insights # strengths insights))))
   \<and> m_improvementAreas (updateStudentMemory now previous st insights historyLimit)
        = take 3 (dedupFirst (filter (\<lambda>s. s \<noteq> []) (map trim (improvementAreas insights))))
   \<and> goals (updateStudentMemory now previous st insights historyLimit)
        = take 3 (dedupFirst (filter (\<lambda>s. s \<noteq> [])
            (map trim (nextStepGoal insights # goals previous))))
   \<and> length (m_strengths (updateStudentMemory now previous st insights historyLimit)) \<le> 3
   \<and> length (m_improvementAreas (updateStudentMemory now previous st insights historyLimit)) \<le> 3
   \<and> length (goals (updateStudentMemory now previous st insights historyLimit)) \<le> 3
   \<and> distinct (m_strengths (updateStudentMemory now previous st insights historyLimit))
   \<and> distinct (m_improvementAreas (updateStudentMemory now previous st insights historyLimit))
   \<and> distinct (goals (updateStudentMemory now previous st insights historyLimit))
   \<and> of_nat (length (history (updateMany previous ((now, st, insights) # runs) historyLimit)))
        \<le> max 0 historyLimit"
proof -
  let ?m = "updateStudentMemory now previous st insights historyLimit"
  have h: "history ?m = trimHistory (historyEntryOf now insights # history previous) historyLimit"
    by (simp add: updateStudentMemory_def Let_def)
  have s: "m_strengths ?m = uniqueList (positiveObservation insights # strengths insights) 3"
    by (simp add: updateStudentMemory_def Let_def)
  have i: "m_improvementAreas ?m = uniqueList (improvementAreas insights) 3"
    by (simp add: updateStudentMemory_def Let_def)
  have g: "goals ?m = uniqueList (nextStepGoal insights # goals previous) 3"
    by (simp add: updateStudentMemory_def Let_def)
  have hl: "of_nat (length (history ?m)) \<le> max 0 historyLimit"
    unfolding h by (rule trimHistory_length)
  have many: "of_nat (length (history (updateMany previous ((now, st, insights) # runs) historyLimit)))
        \<le> max 0 historyLimit"
    using updateMany_history [OF hl] by simp
  have u: "\<And>items. uniqueList items 3
            = take 3 (dedupFirst (filter (\<lambda>s. s \<noteq> []) (map trim items)))"
    by (simp add: uniqueList_spec)
  have d: "\<And>items. distinct (uniqueList items 3)"
    unfolding u by (simp add: distinct_dedupFirst)
  have l: "\<And>items. length (uniqueList items 3) \<le> 3"
    unfolding u by simp
  have hf: "history ?m = (if 1 \<le> historyLimit
          then historyEntryOf now insights # take (nat \<lfloor>historyLimit\<rfloor> - 1) (history previous)
          else [])"
    unfolding h by (rule trimHistory_first)
  have ss: "m_strengths ?m = take 3 (dedupFirst (filter (\<lambda>s. s \<noteq> [])
            (map trim (positiveObservation insights # strengths insights))))"
    unfolding s by (rule u)
  have ii: "m_improvementAreas ?m
        = take 3 (dedupFirst (filter (\<lambda>s. s \<noteq> []) (map trim (improvementAreas insights))))"
    unfolding i by (rule u)
  have gg: "goals ?m = take 3 (dedupFirst (filter (\<lambda>s. s \<noteq> [])
            (map trim (nextStepGoal insights # goals previous))))"
    unfolding g by (rule u)
  have ls: "length (m_strengths ?m) \<le> 3" unfolding s by (rule l)
  have li: "length (m_improvementAreas ?m) \<le> 3" unfolding i by (rule l)
  have lg: "length (goals ?m) \<le> 3" unfolding g by (rule l)
  have ds: "distinct (m_strengths ?m)" unfolding s by (rule d)
  have di: "distinct (m_improvementAreas ?m)" unfolding i by (rule d)
  have dg: "distinct (goals ?m)" unfolding g by (rule d)
  show ?thesis
    by (intro conjI hl hf ss ii gg ls li lg ds di dg many)
qed

theorem updateStudentMemory_bounded_witness:
  "history (updateStudentMemory (js ''2024-10-01T00:00:00.000Z'') exMemory exStudent exInsights 2)
     = [historyEntryOf (js ''2024-10-01T00:00:00.000Z'') exInsights,
        \<lparr> e_date = (js ''2024-09-01T00:00:00.000Z''), e_note = (js ''first'') \<rparr>]
   \<and> m_strengths (updateStudentMemory (js ''2024-10-01T00:00:00.000Z'') exMemory exStudent exInsights 2)
     = [(js ''You showed steady effort this week.''), (js ''Consistent participation''), (js ''Careful reading'')]
   \<and> goals (updateStudentMemory (js ''2024-10-01T00:00:00.000Z'') exMemory exStudent exInsights 2)
     = [(js ''Complete all assignments on time this week.''), (js ''Ask one question per class'')]
   \<and> length (history (updateMany exMemory
         [((js ''2024-10-01T00:00:00.000Z''), exStudent, exInsights),
          ((js ''2024-10-02T00:00:00.000Z''), exStudent, exInsights),
          ((js ''2024-10-03T00:00:00.000Z''), exStudent, exInsights)] 2)) \<le> 2"
proof -
  have t: "take 3 (dedupFirst (filter (\<lambda>s. s \<noteq> [])
            (map trim (positiveObservation exInsights # strengths exInsights))))
      = [(js ''You showed steady effort this week.''), (js ''Consistent participation''), (js ''Careful reading'')]"
    by code_simp
  have g: "take 3 (dedupFirst (filter (\<lambda>s. s \<noteq> [])
            (map trim (nextStepGoal exInsights # goals exMemory))))
      = [(js ''Complete all assignments on time this week.''), (js ''Ask one question per class'')]"
    by code_simp
  have hp: "take (nat \<lfloor>2::rat\<rfloor> - 1) (history exMemory)
      = [\<lparr> e_date = (js ''2024-09-01T00:00:00.000Z''), e_note = (js ''first'') \<rparr>]"
    by (simp add: exMemory_def)
  have "rat_of_nat (length (history (updateMany exMemory
         [((js ''2024-10-01T00:00:00.000Z''), exStudent, exInsights),
          ((js ''2024-10-02T00:00:00.000Z''), exStudent, exInsights),
          ((js ''2024-10-03T00:00:00.000Z''), exStudent, exInsights)] 2))) \<le> 2"
    using updateStudentMemory_bounded [of "(js ''2024-10-01T00:00:00.000Z'')" exMemory exStudent exInsights 2
        "[((js ''2024-10-02T00:00:00.000Z''), exStudent, exInsights),
          ((js ''2024-10-03T00:00:00.000Z''), exStudent, exInsights)]"]
    by simp
  then have l: "length (history (updateMany exMemory
         [((js ''2024-10-01T00:00:00.000Z''), exStudent, exInsights),
          ((js ''2024-10-02T00:00:00.000Z''), exStudent, exInsights),
          ((js ''2024-10-03T00:00:00.000Z''), exStudent, exInsights)] 2)) \<le> 2"
    by (metis of_nat_le_iff of_nat_numeral)
  show ?thesis
    using updateStudentMemory_bounded [of "(js ''2024-10-01T00:00:00.000Z'')" exMemory exStudent exInsights 2 "[]"]
      t g hp l
    by simp
qed

text \<open>
  With a limit of one half, which the configuration accepts, \<^verbatim>\<open>slice\<close> keeps no
  entry: the history is empty and the new entry is not first.
\<close>

theorem updateStudentMemory_counterexample:
  "history (updateStudentMemory (js ''2024-10-01T00:00:00.000Z'') exMemory exStudent exInsights (1 / 2))
     = []
   \<and> \<not> (\<exists>rest.
          history (updateStudentMemory (js ''2024-10-01T00:00:00.000Z'') exMemory exStudent exInsights (1 / 2))
            = historyEntryOf (js ''2024-10-01T00:00:00.000Z'') exInsights # rest)"
  by (simp add: updateStudentMemory_def trimHistory_def Let_def)

subsection \<open>Loading a snapshot\<close>








subsection \<open>The analyzer leaves its argument alone\<close>

lemma topN_st_eq:
  "topN_st h items n sc =
     (h @ [sort_key (\<lambda>x. - sc x) (h ! items), take n (sort_key (\<lambda>x. - sc x) (h ! items))],
      Suc (length h))"
  by (simp add: topN_st_def alloc_def sortInPlace_def Let_def nth_append list_update_append)

lemma bottomN_st_eq:
  "bottomN_st h items n sc =
     (h @ [sort_key sc (h ! items), take n (sort_key sc (h ! items))], Suc (length h))"
  by (simp add: bottomN_st_def alloc_def sortInPlace_def Let_def nth_append list_update_append)

text \<open>
  C10. The store after \<^verbatim>\<open>analyzeStudent\<close> is the store before it followed by the four
  arrays the call created: the array of grades of the student, like every array that
  existed, keeps its order and contents. The analysis holds the student it was given, and
  read out of the store it is the analysis of the value model.
\<close>

theorem analyzeStudent_st_frame:
  assumes "grades st < length h"
  shows "fst (analyzeStudent_st rnd h st) ! grades st = h ! grades st
     \<and> take (length h) (fst (analyzeStudent_st rnd h st)) = h
     \<and> length (fst (analyzeStudent_st rnd h st)) = length h + 4
     \<and> student (snd (analyzeStudent_st rnd h st)) = st
     \<and> readAnalysis (fst (analyzeStudent_st rnd h st)) (snd (analyzeStudent_st rnd h st))
         = analyzeStudent rnd (readStudent h st)"
  using assms
  by (simp add: analyzeStudent_st_def topN_st_eq bottomN_st_eq Let_def nth_append
        readAnalysis_def readStudent_def analyzeStudent_def topN_def bottomN_def determineRisk_def)

theorem analyzeStudent_st_frame_witness:
  "grades exStudentRef < length exStore
   \<and> fst (analyzeStudent_st roundToDouble exStore exStudentRef) ! grades exStudentRef
       = [\<lparr> subject = (js ''English''), score = 70 \<rparr>, \<lparr> subject = (js ''Math''), score = 90 \<rparr>,
          \<lparr> subject = (js ''Art''), score = 80 \<rparr>]
   \<and> highestSubjects (metrics (readAnalysis (fst (analyzeStudent_st roundToDouble exStore exStudentRef))
                                  (snd (analyzeStudent_st roundToDouble exStore exStudentRef))))
       = [\<lparr> subject = (js ''Math''), score = 90 \<rparr>, \<lparr> subject = (js ''Art''), score = 80 \<rparr>]
   \<and> student (snd (analyzeStudent_st roundToDouble exStore exStudentRef)) = exStudentRef"
proof -
  have v: "grades exStudentRef < length exStore"
    by (simp add: exStudentRef_def exStore_def)
  have hs: "highestSubjects (metrics (analyzeStudent roundToDouble (readStudent exStore exStudentRef)))
       = [\<lparr> subject = (js ''Math''), score = 90 \<rparr>, \<lparr> subject = (js ''Art''), score = 80 \<rparr>]"
    by code_simp
  have g: "exStore ! grades exStudentRef
       = [\<lparr> subject = (js ''English''), score = 70 \<rparr>, \<lparr> subject = (js ''Math''), score = 90 \<rparr>,
          \<lparr> subject = (js ''Art''), score = 80 \<rparr>]"
    by (simp add: exStudentRef_def exStore_def)
  show ?thesis
    using analyzeStudent_st_frame [OF v, of roundToDouble] v hs g by simp
qed

subsection \<open>The run orchestrator\<close>

lemma finishStatus_last: "finishStatus (es @ [FinishRun rid s]) = Some s"
proof (induction es)
  case Nil
  show ?case by simp
next
  case (Cons e es)
  then show ?case by (cases e) simp_all
qed

lemma runStudents_analyses:
  "snd (runStudents env sts)
     = map (analyzeStudent (roundDouble env)) (filter (\<lambda>st. analyzeThrows env (id_s st) = None) sts)"
proof (induction sts)
  case Nil
  show ?case by simp
next
  case (Cons st sts)
  then show ?case
    by (cases "analyzeThrows env (id_s st)")
       (auto simp: processStudent_def Let_def split: prod.splits)
qed

lemma runOnce_completed:
  assumes "loadError env = None"
    and "filter (\<lambda>st. analyzeThrows env (id_s st) = None) (students env) \<noteq> []"
  shows "runOnce env =
     ([StartRun (runId env) (startedAt env) (totalCount env) (length (students env)), CreateAgent]
        @ fst (runStudents env (students env)) @ teacherStage env
        @ [FinishRun (runId env) (js ''completed'')],
      Inr (runId env))"
proof -
  have a: "snd (runStudents env (students env)) \<noteq> []"
    using assms(2) by (simp add: runStudents_analyses)
  have s: "students env \<noteq> []" using assms(2) by auto
  show ?thesis
    using assms(1) a s by (auto simp: runOnce_def Let_def split: prod.splits)
qed

text \<open>
  C5. A batch without a valid record makes \<^verbatim>\<open>runOnce\<close> record the start of the run and
  finish it at once: no analysis, no call of the agent, no message row, no teacher stage.
  The terminal status is the one the code writes for this state, \<^verbatim>\<open>no_valid_students\<close>,
  which the specification calls no\_valid\_items.
\<close>

theorem runOnce_no_valid_students:
  assumes "loadError env = None" and "students env = []"
  shows "runOnce env =
           ([StartRun (runId env) (startedAt env) (totalCount env) 0,
             FinishRun (runId env) (js ''no_valid_students'')],
            Inr (runId env))
     \<and> filter isItemWork (fst (runOnce env)) = []
     \<and> finishStatus (fst (runOnce env)) = Some (js ''no_valid_students'')"
  using assms by (simp add: runOnce_def Let_def)

theorem runOnce_no_valid_students_witness:
  "loadError exEnvEmpty = None \<and> students exEnvEmpty = []
   \<and> fst (runOnce exEnvEmpty) =
        [StartRun (js ''run-0'') (js ''2024-10-01T00:00:00.000Z'') 1 0,
         FinishRun (js ''run-0'') (js ''no_valid_students'')]
   \<and> finishStatus (fst (runOnce exEnvEmpty)) = Some (js ''no_valid_students'')"
proof -
  have l: "loadError exEnvEmpty = None" and s: "students exEnvEmpty = []"
    by (simp_all add: exEnvEmpty_def)
  show ?thesis
    using runOnce_no_valid_students [OF l s] l s by (simp add: exEnvEmpty_def)
qed

text \<open>
  C7. When at least one record was analyzed, the run ends with \<^verbatim>\<open>finishRun\<close> and the
  status \<^verbatim>\<open>completed\<close>, whatever the teacher stage did; and when that stage raises,
  wherever it does, a teacher row with the status \<^verbatim>\<open>summary_failed\<close> has been recorded
  before.
\<close>

theorem runOnce_group_failure_completed:
  assumes "loadError env = None"
    and "filter (\<lambda>st. analyzeThrows env (id_s st) = None) (students env) \<noteq> []"
  shows "finishStatus (fst (runOnce env)) = Some (js ''completed'')
     \<and> last (fst (runOnce env)) = FinishRun (runId env) (js ''completed'')
     \<and> snd (runOnce env) = Inr (runId env)
     \<and> (\<forall>k. teacherThrowsAt env = Some k \<and> k < length (teacherCalls env)
          \<longrightarrow> RecordTeacherMessage (runId env) (js ''summary_failed'') False \<in> set (fst (runOnce env)))"
proof -
  note r = runOnce_completed [OF assms]
  have f: "finishStatus (fst (runOnce env)) = Some (js ''completed'')"
    unfolding r fst_conv
    using finishStatus_last
      [of "[StartRun (runId env) (startedAt env) (totalCount env) (length (students env)), CreateAgent]
             @ fst (runStudents env (students env)) @ teacherStage env" "runId env" "(js ''completed'')"]
    by simp
  have l: "last (fst (runOnce env)) = FinishRun (runId env) (js ''completed'')"
    by (simp add: r)
  have t: "\<forall>k. teacherThrowsAt env = Some k \<and> k < length (teacherCalls env)
        \<longrightarrow> RecordTeacherMessage (runId env) (js ''summary_failed'') False \<in> set (teacherStage env)"
    by (simp add: teacherStage_def tryCatch_def)
  have m: "set (teacherStage env) \<subseteq> set (fst (runOnce env))"
    by (auto simp: r)
  show ?thesis
    using f l t m by (auto simp: r)
qed

theorem runOnce_group_failure_completed_witness:
  "loadError exEnvGroupFails = None
   \<and> filter (\<lambda>st. analyzeThrows exEnvGroupFails (id_s st) = None) (students exEnvGroupFails) \<noteq> []
   \<and> teacherThrowsAt exEnvGroupFails = Some 4 \<and> 4 < length (teacherCalls exEnvGroupFails)
   \<and> finishStatus (fst (runOnce exEnvGroupFails)) = Some (js ''completed'')
   \<and> RecordTeacherMessage (js ''run-1'') (js ''summary_failed'') False \<in> set (fst (runOnce exEnvGroupFails))"
proof -
  have l: "loadError exEnvGroupFails = None"
    by (simp add: exEnvGroupFails_def exEnvEmpty_def)
  have s: "filter (\<lambda>st. analyzeThrows exEnvGroupFails (id_s st) = None) (students exEnvGroupFails) \<noteq> []"
    by (simp add: exEnvGroupFails_def exEnvEmpty_def)
  have t: "teacherThrowsAt exEnvGroupFails = Some 4"
    by (simp add: exEnvGroupFails_def exEnvEmpty_def)
  have c: "4 < length (teacherCalls exEnvGroupFails)"
    by (simp add: teacherCalls_def Let_def)
  have i: "runId exEnvGroupFails = (js ''run-1'')"
    by (simp add: exEnvGroupFails_def exEnvEmpty_def)
  show ?thesis
    using runOnce_group_failure_completed [OF l s] l s t c i by auto
qed

subsection \<open>The single-flight guard\<close>






end
